theory Spec2Isabelle
  imports Complex_Main "HOL-Library.Multiset"
begin

text \<open>
  A shallow embedding of the progress logic of the interview-preparation application:
  the streak and badge update that follows every saved history record, the goal
  tracker, the resume snapshot and the scoring of the aptitude quiz, the round
  sequencing of the mock interview, and the handling of unparsable answers of the
  generative service.  Counts are integers; a score or a time is the rational that the
  JavaScript number denotes.  The arithmetic that computes a score or an average
  accuracy is double arithmetic with its rounding (section Numbers); the elapsed time
  that the resume snapshot adds is kept exact.  Calls to the document store and to the
  generative service are functions of the stored data, or take the outcome of the call
  as an argument.
  Definitions come first, theorems after them.
\<close>

section \<open>Dates\<close>

text \<open>
  A JavaScript \<open>Date\<close> is its time value: milliseconds since 1970-01-01T00:00Z.
  The local time zone is a fixed offset \<open>tz\<close> in milliseconds (daylight-saving
  changes are not modelled).  \<open>new Date(0)\<close> is the time value \<open>0\<close>.
\<close>

type_synonym date = int

definition msPerDay :: int where
  "msPerDay = 86400000"

text \<open>The local calendar day of a date, counted in days from 1970-01-01 (local).\<close>

definition localDay :: "int \<Rightarrow> date \<Rightarrow> int" where
  "localDay tz d = (d + tz) div msPerDay"

text \<open>
  \<open>Date.prototype.toDateString\<close> prints weekday, month, day and year of the local
  calendar day and nothing else; two dates print the same string exactly when they fall
  on the same local calendar day.  The string is represented by that day's number.
\<close>

definition toDateString :: "int \<Rightarrow> date \<Rightarrow> int" where
  "toDateString tz d = localDay tz d"

text \<open>\<open>getDay\<close>: 0 for Sunday up to 6 for Saturday; 1970-01-01 was a Thursday.\<close>

definition getDay :: "int \<Rightarrow> date \<Rightarrow> int" where
  "getDay tz d = (localDay tz d + 4) mod 7"

text \<open>
  \<open>getDate\<close>: the day of the month (1 to 31) of the local calendar day, by the
  usual conversion of a day count to a proleptic Gregorian date.
\<close>

definition dayOfMonth :: "int \<Rightarrow> int" where
  "dayOfMonth days =
     (let z = days + 719468;
          era = z div 146097;
          doe = z - era * 146097;
          yoe = (doe - doe div 1460 + doe div 36524 - doe div 146096) div 365;
          doy = doe - (365 * yoe + yoe div 4 - yoe div 100);
          mp = (5 * doy + 2) div 153
      in doy - (153 * mp + 2) div 5 + 1)"

definition getDate :: "int \<Rightarrow> date \<Rightarrow> int" where
  "getDate tz d = dayOfMonth (localDay tz d)"

text \<open>
  \<open>d.setDate(n)\<close> keeps month, year and time of day of \<open>d\<close> and sets the day of
  the month to \<open>n\<close>; a value outside the month (0, negative, 32, ...) rolls over
  into the neighbouring months, so the date moves by \<open>n - d.getDate()\<close> days.
\<close>

definition setDate :: "int \<Rightarrow> date \<Rightarrow> int \<Rightarrow> date" where
  "setDate tz d n = d + (n - getDate tz d) * msPerDay"


section \<open>User profile and streak (firestoreService: updateUserStreakAndBadges)\<close>

text \<open>
  The profile document \<open>users/{userId}\<close>.  The fields \<open>streak\<close> and
  \<open>lastActivityDate\<close> may be absent (\<open>None\<close>): the document is created as
  \<open>{ userId }\<close> and only a later merge adds them.
\<close>

record user_profile =
  userId :: string
  streak :: "int option"
  lastActivityDate :: "date option"

type_synonym users = "string \<rightharpoonup> user_profile"

text \<open>\<open>profile.streak || 0\<close>: an absent streak and the streak 0 both give 0.\<close>

definition streak_or_zero :: "user_profile \<Rightarrow> int" where
  "streak_or_zero p = (case streak p of None \<Rightarrow> 0 | Some s \<Rightarrow> s)"

text \<open>
  The streak part of \<open>updateUserStreakAndBadges\<close> (up to the badge update).
  \<open>now\<close> is the client clock read by \<open>new Date()\<close> (the reads for \<open>today\<close> and
  \<open>yesterday\<close> are consecutive statements and are one instant here); \<open>srv\<close> is
  the value the server stores for the \<open>serverTimestamp()\<close> sentinel of the write.
  The result is the in-memory profile, whose streak feeds the badge check,
  and the \<open>users\<close> collection after the writes.
\<close>

definition updateUserStreak ::
  "int \<Rightarrow> date \<Rightarrow> date \<Rightarrow> string \<Rightarrow> users \<Rightarrow> user_profile \<times> users" where
  "updateUserStreak tz now srv uid db =
     (let profile = (case db uid of
                       Some d \<Rightarrow> d
                     | None \<Rightarrow> \<lparr>userId = uid, streak = Some 0, lastActivityDate = None\<rparr>);
          db1 = (case db uid of
                   Some d \<Rightarrow> db
                 | None \<Rightarrow> db(uid \<mapsto> \<lparr>userId = uid, streak = None, lastActivityDate = None\<rparr>));
          today = now;
          lastActivity = (case lastActivityDate profile of Some d \<Rightarrow> d | None \<Rightarrow> 0);
          isSameDay = (toDateString tz today = toDateString tz lastActivity)
      in if \<not> isSameDay then
           (let yesterday = setDate tz now (getDate tz today - 1);
                s = (if toDateString tz lastActivity = toDateString tz yesterday
                     then streak_or_zero profile + 1
                     else 1);
                profile' = profile\<lparr>streak := Some s, lastActivityDate := Some today\<rparr>;
                db2 = (case db1 uid of
                         Some d \<Rightarrow> db1(uid \<mapsto> d\<lparr>streak := Some s, lastActivityDate := Some srv\<rparr>)
                       | None \<Rightarrow> db1(uid \<mapsto> \<lparr>userId = uid, streak = Some s,
                                                lastActivityDate = Some srv\<rparr>))
            in (profile', db2))
         else (profile, db1))"



section \<open>Numbers\<close>

text \<open>
  A JavaScript number is an IEEE 754 double.  A finite double is the rational it
  denotes; \<open>None\<close> stands for the values that are not finite (\<open>NaN\<close> and the two
  infinities).  Every arithmetic operation computes the exact result and rounds it to
  the nearest double, ties to the even significand; a result that rounds to
  magnitude \<open>2^1024\<close> or more is an infinity.  The two zeros are not told apart.
\<close>

text \<open>The number of binary digits of a positive integer.\<close>

function bits :: "int \<Rightarrow> nat" where
  "bits n = (if n \<le> 0 then 0 else Suc (bits (n div 2)))"
  by pat_completeness auto
termination
  by (relation "measure nat") auto

declare bits.simps [simp del]

definition pow2 :: "int \<Rightarrow> rat" where
  "pow2 e = (if e \<ge> 0 then 2 ^ nat e else 1 / 2 ^ nat (- e))"

text \<open>The binary exponent of a positive rational \<open>x\<close>: \<open>2^e \<le> x < 2^(e+1)\<close>.\<close>

definition exponent :: "rat \<Rightarrow> int" where
  "exponent x =
     (if x \<ge> 1 then int (bits \<lfloor>x\<rfloor>) - 1
      else - int (bits (\<lceil>1 / x\<rceil> - 1)))"

text \<open>Rounding to the nearest integer, ties to even.\<close>

definition round_even :: "rat \<Rightarrow> int" where
  "round_even x =
     (let f = \<lfloor>x\<rfloor>; d = x - of_int f
      in if d < 1 / 2 then f
         else if d > 1 / 2 then f + 1
         else if even f then f else f + 1)"

text \<open>
  The nearest double of a rational, with unbounded exponent upwards: 53 significant
  bits for the normal numbers, multiples of \<open>2^-1074\<close> below \<open>2^-1022\<close>.
\<close>

definition round_finite :: "rat \<Rightarrow> rat" where
  "round_finite x =
     (if x = 0 then 0
      else (let a = \<bar>x\<bar>;
                e = max (exponent a) (- 1022);
                ulp = pow2 (e - 52);
                m = round_even (a / ulp)
            in sgn x * (of_int m * ulp)))"

definition to_double :: "rat \<Rightarrow> rat option" where
  "to_double x =
     (let r = round_finite x in if \<bar>r\<bar> \<ge> pow2 1024 then None else Some r)"

text \<open>
  \<open>a + b\<close> and \<open>a * b\<close> on numbers; an operand that is not finite gives a
  result that is not finite when the other operand is finite and, for \<open>*\<close>, not
  zero, which is how the operations are used here.  \<open>a / b\<close> for a finite divisor:
  division by zero gives \<open>NaN\<close> or an infinity.
\<close>

definition js_add :: "rat option \<Rightarrow> rat option \<Rightarrow> rat option" where
  "js_add a b = (case (a, b) of (Some x, Some y) \<Rightarrow> to_double (x + y) | _ \<Rightarrow> None)"

definition js_mul :: "rat option \<Rightarrow> rat option \<Rightarrow> rat option" where
  "js_mul a b = (case (a, b) of (Some x, Some y) \<Rightarrow> to_double (x * y) | _ \<Rightarrow> None)"

definition js_div :: "rat option \<Rightarrow> rat \<Rightarrow> rat option" where
  "js_div a b =
     (case a of
        Some x \<Rightarrow> if b = 0 then None else to_double (x / b)
      | None \<Rightarrow> None)"

section \<open>History records and badge rules (firestoreService: checkAllBadges)\<close>

text \<open>
  \<open>scoreRating?: string | number\<close>; the numbers that are compared here
  (\<open>=== 100\<close>, \<open>> 90\<close>, \<open>> 75\<close>) are modelled as rationals.
\<close>

datatype score_rating = NumScore rat | StrScore string

text \<open>
  The fields of \<open>dataReference\<close> that the service reads through
  \<open>(h.dataReference as any)\<close>; each may be absent.
\<close>

record data_reference =
  quizType :: "string option"
  topic :: "string option"
  questionsAnswered :: "rat option"

text \<open>
  The fields of an \<open>InterviewHistory\<close> document that the service reads:
  \<open>htype\<close> is the field \<open>type\<close>, one of the strings \<open>aptitude\<close>,
  \<open>hr\<close>, \<open>technical\<close>, \<open>profile_review\<close>, \<open>group_discussion\<close>,
  \<open>mock\<close>, \<open>review_hub\<close>.  \<open>timestamp\<close> is a Date after
  \<open>convertTimestamps\<close>, or absent.
\<close>

record interview_history =
  htype :: string
  timestamp :: "date option"
  scoreRating :: "score_rating option"
  dataReference :: data_reference

definition QUANTITATIVE :: string where "QUANTITATIVE = ''Quantitative Aptitude''"
definition LOGICAL_REASONING :: string where "LOGICAL_REASONING = ''Logical Reasoning''"
definition VERBAL_ABILITY :: string where "VERBAL_ABILITY = ''Verbal Ability''"
definition DATA_INTERPRETATION :: string where "DATA_INTERPRETATION = ''Data Interpretation''"

text \<open>\<open>typeof h.scoreRating === 'number' && h.scoreRating > x\<close> and \<open>... === x\<close>.\<close>

definition score_gt :: "interview_history \<Rightarrow> rat \<Rightarrow> bool" where
  "score_gt h x = (case scoreRating h of Some (NumScore r) \<Rightarrow> r > x | _ \<Rightarrow> False)"

definition score_eq :: "interview_history \<Rightarrow> rat \<Rightarrow> bool" where
  "score_eq h x = (case scoreRating h of Some (NumScore r) \<Rightarrow> r = x | _ \<Rightarrow> False)"

definition topic_is :: "interview_history \<Rightarrow> string \<Rightarrow> bool" where
  "topic_is h t = (topic (dataReference h) = Some t)"

text \<open>\<open>(h.dataReference as any).questionsAnswered >= 10\<close>: false when absent.\<close>

definition answered_ge :: "interview_history \<Rightarrow> rat \<Rightarrow> bool" where
  "answered_ge h x = (case questionsAnswered (dataReference h) of Some q \<Rightarrow> q \<ge> x | None \<Rightarrow> False)"

text \<open>\<open>if (c) earnedBadgeIds.add(b)\<close> on a \<open>Set\<close> kept in insertion order.\<close>

definition add_if :: "bool \<Rightarrow> string \<Rightarrow> string list \<Rightarrow> string list" where
  "add_if c b earned = (if c \<and> b \<notin> set earned then earned @ [b] else earned)"

text \<open>
  The weekend rule: today is Sunday (0) or Saturday (6), the history is not empty,
  and its first record carries a timestamp on today's calendar day.
\<close>

definition weekend_rule :: "int \<Rightarrow> date \<Rightarrow> interview_history list \<Rightarrow> bool" where
  "weekend_rule tz now history =
     (let today = getDay tz now in
      if history \<noteq> [] \<and> (today = 0 \<or> today = 6) then
        (case timestamp (hd history) of
           None \<Rightarrow> False
         | Some lastActivity \<Rightarrow> toDateString tz lastActivity = toDateString tz now)
      else False)"

definition checkAllBadges ::
  "int \<Rightarrow> date \<Rightarrow> interview_history list \<Rightarrow> int \<Rightarrow> nat \<Rightarrow> string list" where
  "checkAllBadges tz now history strk revisionCount =
     (let aptitudeHistory = filter (\<lambda>item. htype item = ''aptitude'') history;
          diagnosticTests = filter (\<lambda>h. quizType (dataReference h) = Some ''Diagnostic'')
                              aptitudeHistory;
          allModuleTypes = set (map htype history)
      in
        add_if (list_all (\<lambda>t. t \<in> allModuleTypes)
                  [''aptitude'', ''technical'', ''hr'', ''group_discussion'', ''profile_review''])
          ''well-rounded''
       (add_if (revisionCount \<ge> 10) ''revisionist''
       (add_if (list_ex (\<lambda>item. htype item = ''profile_review'') history) ''profile-auditor''
       (add_if (length (filter (\<lambda>item. htype item = ''mock'') history) \<ge> 3) ''mock-star''
       (add_if (length (filter (\<lambda>item. htype item = ''group_discussion'') history) \<ge> 5) ''gd-5''
       (add_if (length (filter (\<lambda>item. htype item = ''hr'') history) \<ge> 5) ''hr-5''
       (add_if (length (filter (\<lambda>item. htype item = ''technical'') history) \<ge> 5) ''tech-5''
       (add_if (list_ex (\<lambda>h. score_gt h 75) diagnosticTests) ''diagnostic-high-potential''
       (add_if (length diagnosticTests > 0) ''diagnostic-complete''
       (add_if (list_ex (\<lambda>h. topic_is h DATA_INTERPRETATION \<and> score_gt h 90) aptitudeHistory)
          ''di-detective''
       (add_if (list_ex (\<lambda>h. topic_is h VERBAL_ABILITY \<and> score_gt h 90) aptitudeHistory)
          ''verbal-master''
       (add_if (list_ex (\<lambda>h. topic_is h LOGICAL_REASONING \<and> score_gt h 90) aptitudeHistory)
          ''logical-master''
       (add_if (list_ex (\<lambda>h. topic_is h QUANTITATIVE \<and> score_gt h 90) aptitudeHistory)
          ''quant-master''
       (add_if (list_ex (\<lambda>h. score_eq h 100 \<and> answered_ge h 10) aptitudeHistory) ''apti-perfect''
       (add_if (length aptitudeHistory \<ge> 50) ''apti-50''
       (add_if (length aptitudeHistory \<ge> 10) ''apti-10''
       (add_if (weekend_rule tz now history) ''weekend-warrior''
       (add_if (strk \<ge> 30) ''streak-30''
       (add_if (strk \<ge> 7) ''streak-7'' [])))))))))))))))))))"


section \<open>Goals (firestoreService: getAverageAccuracyForTopic, getActiveGoal, setUserGoal)\<close>

text \<open>
  A \<open>UserGoal\<close> document; \<open>g_userId\<close> and \<open>g_topic\<close> are its fields
  \<open>userId\<close> and \<open>topic\<close>.  The collection \<open>userGoals\<close> is a list of
  (document id, data) in the order in which a query without \<open>orderBy\<close> returns it.
\<close>

record user_goal =
  g_userId :: string
  g_topic :: string
  targetAccuracy :: rat
  initialAccuracy :: rat
  currentAccuracy :: rat
  startDate :: date
  endDate :: date
  isActive :: bool

type_synonym goals = "(string \<times> user_goal) list"

text \<open>\<open>batch.update(ref, { isActive: false })\<close> for every document of the snapshot.\<close>

definition deactivate :: "string list \<Rightarrow> goals \<Rightarrow> goals" where
  "deactivate ids db = map (\<lambda>(i, g). if i \<in> set ids then (i, g\<lparr>isActive := False\<rparr>) else (i, g)) db"

text \<open>\<open>batch.set(ref, goal)\<close>: replaces the document of that id, or creates it.\<close>

definition set_doc :: "string \<Rightarrow> user_goal \<Rightarrow> goals \<Rightarrow> goals" where
  "set_doc i v db =
     (if i \<in> set (map fst db) then map (\<lambda>(j, g). if j = i then (j, v) else (j, g)) db
      else db @ [(i, v)])"

text \<open>
  \<open>setUserGoal\<close>.  \<open>newId\<close> is the identifier that \<open>doc(collection(db,
  'userGoals'))\<close> generates.  The batch is committed as one write.
\<close>

definition setUserGoal :: "string \<Rightarrow> user_goal \<Rightarrow> goals \<Rightarrow> goals" where
  "setUserGoal newId goal db =
     (let snapshot = filter (\<lambda>(i, g). g_userId g = g_userId goal \<and> isActive g) db
      in set_doc newId goal (deactivate (map fst snapshot) db))"

text \<open>
  The query of \<open>getAverageAccuracyForTopic\<close> on the user's \<open>interview_history\<close>:
  type \<open>aptitude\<close>, \<open>dataReference.topic\<close> equal to the topic, ordered by
  \<open>timestamp\<close> descending (documents without the field are not returned), limit 5.
  Among equal timestamps the store orders by document id; the subcollection is
  given as a list in that order, and the sort is stable.
\<close>

definition matches_topic :: "string \<Rightarrow> interview_history \<Rightarrow> bool" where
  "matches_topic t h =
     (htype h = ''aptitude'' \<and> topic (dataReference h) = Some t \<and> timestamp h \<noteq> None)"

definition desc_key :: "interview_history \<Rightarrow> int" where
  "desc_key h = (case timestamp h of Some d \<Rightarrow> - d | None \<Rightarrow> 0)"

definition topic_query :: "interview_history list \<Rightarrow> string \<Rightarrow> interview_history list" where
  "topic_query hs t = take 5 (sort_key desc_key (filter (matches_topic t) hs))"

text \<open>
  \<open>scoreRating as number\<close>.  For a score that is not a number JavaScript goes on
  with string concatenation or \<open>NaN\<close>, and an average that is not finite cannot be
  the \<open>currentAccuracy\<close> of a goal record here; both lie outside this model, and
  the functions below answer \<open>Inl\<close> there.
\<close>

datatype model_limit = NonNumericScore | NotFinite

definition score_number :: "interview_history \<Rightarrow> rat option" where
  "score_number h = (case scoreRating h of Some (NumScore r) \<Rightarrow> Some r | _ \<Rightarrow> None)"

text \<open>
  \<open>scores.reduce((acc, score) => acc + score, 0) / scores.length\<close>, in double
  arithmetic: the sum is taken from the left, each addition rounded, and the
  quotient is rounded.
\<close>

definition js_average :: "rat list \<Rightarrow> rat option" where
  "js_average scores =
     js_div (foldl (\<lambda>acc score. js_add acc (Some score)) (Some 0) scores)
       (of_nat (length scores))"

text \<open>\<open>getAverageAccuracyForTopic\<close>; \<open>null\<close> (here \<open>Inr None\<close>) when the
  query returns nothing.\<close>

definition getAverageAccuracyForTopic ::
  "(string \<Rightarrow> interview_history list) \<Rightarrow> string \<Rightarrow> string \<Rightarrow> model_limit + rat option" where
  "getAverageAccuracyForTopic hdb uid t =
     (let docs = topic_query (hdb uid) t in
      if docs = [] then Inr None
      else (case those (map score_number docs) of
              None \<Rightarrow> Inl NonNumericScore
            | Some scores \<Rightarrow>
                (case js_average scores of
                   None \<Rightarrow> Inl NotFinite
                 | Some a \<Rightarrow> Inr (Some a))))"

text \<open>\<open>setDoc(doc(db, 'userGoals', id), { currentAccuracy }, { merge: true })\<close>.\<close>

definition merge_currentAccuracy :: "string \<Rightarrow> rat \<Rightarrow> goals \<Rightarrow> goals" where
  "merge_currentAccuracy i a db =
     map (\<lambda>(j, g). if j = i then (j, g\<lparr>currentAccuracy := a\<rparr>) else (j, g)) db"

text \<open>
  \<open>getActiveGoal\<close>: the returned goal with its document id (\<open>None\<close> for
  \<open>null\<close>), and the collection after the optional write.
\<close>

definition getActiveGoal ::
  "(string \<Rightarrow> interview_history list) \<Rightarrow> goals \<Rightarrow> string
     \<Rightarrow> model_limit + ((string \<times> user_goal) option \<times> goals)" where
  "getActiveGoal hdb db uid =
     (case take 1 (filter (\<lambda>(i, g). g_userId g = uid \<and> isActive g) db) of
        [] \<Rightarrow> Inr (None, db)
      | (i, goal) # _ \<Rightarrow>
          (case getAverageAccuracyForTopic hdb uid (g_topic goal) of
             Inl e \<Rightarrow> Inl e
           | Inr None \<Rightarrow> Inr (Some (i, goal), db)
           | Inr (Some a) \<Rightarrow>
               if a \<noteq> currentAccuracy goal
               then Inr (Some (i, goal\<lparr>currentAccuracy := a\<rparr>), merge_currentAccuracy i a db)
               else Inr (Some (i, goal), db)))"


section \<open>Aptitude quiz (AptitudePrep.tsx)\<close>

text \<open>
  A JavaScript array whose elements may be \<open>null\<close>, \<open>undefined\<close> or holes: all
  three are \<open>None\<close>.  Reading past the end gives \<open>undefined\<close>; writing past the
  end extends the array and leaves holes.
\<close>

definition js_get :: "'a option list \<Rightarrow> nat \<Rightarrow> 'a option" where
  "js_get xs i = (if i < length xs then xs ! i else None)"

definition js_set :: "'a option list \<Rightarrow> nat \<Rightarrow> 'a \<Rightarrow> 'a option list" where
  "js_set xs i v =
     (if i < length xs then xs[i := Some v]
      else xs @ replicate (i - length xs) None @ [Some v])"

record aptitude_question =
  question :: string
  options :: "string list"
  correctAnswer :: string
  explanation :: string
  subTopic :: string

datatype difficulty = Easy | Medium | Hard | Mixed

datatype quiz_type = Practice | Diagnostic

definition quiz_type_string :: "quiz_type \<Rightarrow> string" where
  "quiz_type_string q = (case q of Practice \<Rightarrow> ''Practice'' | Diagnostic \<Rightarrow> ''Diagnostic'')"

datatype quiz_flow = QLoading | QPrompt | QSetup | QActive | QResults

text \<open>\<open>SavedQuizState\<close>; the fields carry the prefix \<open>sv_\<close>.\<close>

record saved_quiz_state =
  sv_questions :: "aptitude_question list"
  sv_userAnswers :: "string option list"
  sv_currentQuestionIndex :: nat
  sv_timeLeft :: "int option"
  sv_topic :: string
  sv_selectedDifficulty :: difficulty
  sv_numQuestions :: nat
  sv_timePerQuestion :: "rat option list"

text \<open>\<open>AptitudeQuizResult\<close>; \<open>score\<close> is \<open>None\<close> when it is not a finite number.\<close>

record aptitude_quiz_result =
  res_userId :: string
  score :: "rat option"
  total :: nat
  correctAnswers :: nat
  incorrectAnswers :: int
  res_topic :: string
  res_difficulty :: difficulty
  res_quizType :: quiz_type
  res_questions :: "aptitude_question list"
  res_userAnswers :: "string option list"
  res_timePerQuestion :: "rat option list"

text \<open>The state of the component (its \<open>useState\<close> cells); the fields carry \<open>ap_\<close>.\<close>

record aptitude_prep =
  ap_flow :: quiz_flow
  ap_selectedDifficulty :: difficulty
  ap_numQuestions :: nat
  ap_savedQuizState :: "saved_quiz_state option"
  ap_questions :: "aptitude_question list"
  ap_currentQuestionIndex :: nat
  ap_userAnswers :: "string option list"
  ap_timeLeft :: "int option"
  ap_timePerQuestion :: "rat option list"
  ap_questionStartTime :: int
  ap_quizTopic :: string
  ap_quizType :: quiz_type
  ap_result :: "aptitude_quiz_result option"
  ap_isQuizActive :: bool


text \<open>
  The local-storage slot \<open>aptitudeQuizInProgress\<close>.  It holds the text
  \<open>JSON.stringify(quizToSave)\<close> and is read back with \<open>JSON.parse\<close>; strings,
  finite numbers, \<open>null\<close>, arrays and objects survive that unchanged, and
  \<open>undefined\<close> array elements come back as \<open>null\<close> (both are \<open>None\<close> here).
  The slot is therefore the saved record itself, or \<open>None\<close> when empty.
\<close>

type_synonym quiz_storage = "saved_quiz_state option"




text \<open>
  The counting loop of \<open>calculateResult\<close> (and of the aptitude round of the mock
  interview): \<open>questions.forEach((q, index) => { if (q.correctAnswer ===
  finalAnswers[index]) correct++ })\<close>, from index \<open>i\<close> on.
\<close>

fun count_correct :: "nat \<Rightarrow> aptitude_question list \<Rightarrow> string option list \<Rightarrow> nat \<Rightarrow> nat" where
  "count_correct i [] finalAnswers correct = correct"
| "count_correct i (q # qs) finalAnswers correct =
     count_correct (i + 1) qs finalAnswers
       (if Some (correctAnswer q) = js_get finalAnswers i then correct + 1 else correct)"

text \<open>
  \<open>calculateResult\<close>: the result record, the component state after the function
  has run to its end, and the emptied storage slot.  The score is
  \<open>(correct / questions.length) * 100\<close> in double arithmetic.  The history
  record that is saved in between takes \<open>scoreRating\<close> from \<open>score\<close>; whether
  that save succeeds has no effect on the state.  The closing comparisons
  \<open>score < 40\<close> and \<open>score > 80\<close> are both false for \<open>NaN\<close>.
\<close>

definition calculateResult ::
  "string \<Rightarrow> string option list \<Rightarrow> rat option list \<Rightarrow> aptitude_prep
     \<Rightarrow> aptitude_quiz_result \<times> aptitude_prep \<times> quiz_storage" where
  "calculateResult uid finalAnswers finalTimes s =
     (let correct = count_correct 0 (ap_questions s) finalAnswers 0;
          n = length (ap_questions s);
          quizResultData =
            \<lparr>res_userId = uid,
             score = js_mul (js_div (Some (of_nat correct)) (of_nat n)) (Some 100),
             total = n,
             correctAnswers = correct,
             incorrectAnswers = int n - int correct,
             res_topic = ap_quizTopic s,
             res_difficulty = ap_selectedDifficulty s,
             res_quizType = ap_quizType s,
             res_questions = ap_questions s,
             res_userAnswers = finalAnswers,
             res_timePerQuestion = finalTimes\<rparr>
      in (quizResultData,
          s\<lparr>ap_savedQuizState := None,
            ap_result := Some quizResultData,
            ap_isQuizActive := False,
            ap_selectedDifficulty :=
              (case score quizResultData of
                 Some x \<Rightarrow> if x < 40 then Easy else if x > 80 then Hard else Medium
               | None \<Rightarrow> Medium)\<rparr>,
          None))"

text \<open>
  The number of correct answers as the specification words it: the number of indices
  at which the user's answer is the question's correct answer.
\<close>

definition matching_indices :: "aptitude_question list \<Rightarrow> string option list \<Rightarrow> nat set" where
  "matching_indices qs finalAnswers =
     {i. i < length qs \<and> js_get finalAnswers i = Some (correctAnswer (qs ! i))}"


section \<open>Mock interview (MockInterview.tsx)\<close>

datatype round_type = Aptitude | Technical | HR

definition INTERVIEW_STRUCTURE :: "round_type list" where
  "INTERVIEW_STRUCTURE = [Aptitude, Technical, HR]"

fun ROUND_QUESTION_COUNT :: "round_type \<Rightarrow> nat" where
  "ROUND_QUESTION_COUNT Aptitude = 30"
| "ROUND_QUESTION_COUNT Technical = 6"
| "ROUND_QUESTION_COUNT HR = 6"

definition round_name :: "round_type \<Rightarrow> string" where
  "round_name rt = (case rt of Aptitude \<Rightarrow> ''Aptitude'' | Technical \<Rightarrow> ''Technical'' | HR \<Rightarrow> ''HR'')"

text \<open>
  \<open>MockInterviewRoundResult\<close>: the aptitude entry with score, total and
  correctAnswers, or a question entry of type Technical or HR with question, answer
  and feedback (answer and feedback are \<open>undefined\<close> when the arrays they are read
  from are too short).
\<close>

datatype round_result =
    AptitudeResult "rat option" nat nat
  | AnswerResult round_type string "string option" "string option"


datatype mock_flow = MSetup | MActive | MResults

text \<open>\<open>backgroundFetchPromise.current\<close>: \<open>null\<close>, or a promise and its state.\<close>

datatype promise = NoPromise | Pending | Resolved | Rejected

text \<open>The state of the component; the fields carry the prefix \<open>mi_\<close>.\<close>

record mock_interview =
  mi_flow :: mock_flow
  mi_targetRole :: string
  mi_targetCompanyTier :: string
  mi_duration :: int
  mi_timeLeft :: int
  mi_currentRoundIndex :: nat
  mi_roundResults :: "round_result list"
  mi_aptitudeQuestions :: "aptitude_question list"
  mi_aptitudeAnswers :: "string option list"
  mi_currentQuestionIndex :: nat
  mi_technicalQuestions :: "string list"
  mi_technicalAnswers :: "string option list"
  mi_hrQuestions :: "string list"
  mi_hrAnswers :: "string option list"
  mi_isLoading :: bool
  mi_loadingMessage :: string
  mi_error :: "string option"
  mi_finalResults :: "round_result list"
  mi_overallFeedback :: string
  mi_backgroundFetch :: promise

definition mi_initial :: mock_interview where
  "mi_initial =
     \<lparr>mi_flow = MSetup, mi_targetRole = ''Full-Stack Developer'',
      mi_targetCompanyTier = ''High-Growth Startup'', mi_duration = 60, mi_timeLeft = 0,
      mi_currentRoundIndex = 0, mi_roundResults = [], mi_aptitudeQuestions = [],
      mi_aptitudeAnswers = [], mi_currentQuestionIndex = 0, mi_technicalQuestions = [],
      mi_technicalAnswers = [], mi_hrQuestions = [], mi_hrAnswers = [],
      mi_isLoading = False, mi_loadingMessage = [], mi_error = None, mi_finalResults = [],
      mi_overallFeedback = [], mi_backgroundFetch = NoPromise\<rparr>"

text \<open>
  \<open>finishInterview(currentResults)\<close>.  \<open>fb\<close> is the answer of
  \<open>getMockInterviewOverallFeedback\<close> (recommendation, summary, report), \<open>None\<close>
  when the call throws; \<open>saved\<close> tells whether \<open>saveInterviewHistory\<close>
  succeeded.  The result is the state after the function has run to its end, and the
  result list passed to \<open>getMockInterviewOverallFeedback\<close>.
\<close>

definition finishInterview ::
  "round_result list \<Rightarrow> (string \<times> string \<times> string) option \<Rightarrow> bool \<Rightarrow> mock_interview
     \<Rightarrow> mock_interview \<times> round_result list" where
  "finishInterview currentResults fb saved s =
     (let s1 = s\<lparr>mi_isLoading := True,
                  mi_loadingMessage :=
                    ''Analyzing your performance and generating the final report...'',
                  mi_flow := MResults,
                  mi_finalResults := currentResults\<rparr>;
          s2 = (case fb of
                  Some (recommendation, summary, report) \<Rightarrow>
                    if saved then s1\<lparr>mi_overallFeedback := report\<rparr>
                    else s1\<lparr>mi_overallFeedback :=
                            ''Could not generate overall feedback due to an error.''\<rparr>
                | None \<Rightarrow> s1\<lparr>mi_overallFeedback :=
                            ''Could not generate overall feedback due to an error.''\<rparr>)
      in (s2\<lparr>mi_isLoading := False\<rparr>, currentResults))"

text \<open>
  The answer of \<open>getTechnicalInterviewFeedback\<close> or \<open>getHrInterviewFeedback\<close>:
  the call throws, or returns \<open>undefined\<close> (the technical one returns
  \<open>parsed.feedbacks\<close> unchecked), or returns an array of feedback strings.
\<close>

datatype feedback_outcome = FeedbackThrows | FeedbackUndefined | Feedbacks "string list"

text \<open>
  \<open>questions.map((q, i) => ({ question: q, answer: answers[i] }))\<close> followed by
  \<open>conversation.map((turn, i) => ({ ...turn, type, feedback: feedbacks[i] }))\<close>;
  \<open>None\<close> when reading \<open>feedbacks[i]\<close> throws.
\<close>

definition feedback_results ::
  "round_type \<Rightarrow> string list \<Rightarrow> string option list \<Rightarrow> feedback_outcome
     \<Rightarrow> round_result list option" where
  "feedback_results rt questions answers fb =
     (case fb of
        FeedbackThrows \<Rightarrow> None
      | FeedbackUndefined \<Rightarrow> (if questions = [] then Some [] else None)
      | Feedbacks fs \<Rightarrow>
          Some (map (\<lambda>(i, q). AnswerResult rt q (js_get answers i) (js_get (map Some fs) i))
                  (enumerate 0 questions)))"

text \<open>The \<open>try\<close> block of \<open>proceedToNext\<close> up to \<open>newRoundResults\<close>.\<close>

definition score_round ::
  "mock_interview \<Rightarrow> round_type \<Rightarrow> feedback_outcome \<Rightarrow> round_result list option" where
  "score_round s rt fb =
     (case rt of
        Aptitude \<Rightarrow>
          (let correct = count_correct 0 (mi_aptitudeQuestions s) (mi_aptitudeAnswers s) 0;
               n = length (mi_aptitudeQuestions s)
           in Some [AptitudeResult
                      (js_mul (js_div (Some (of_nat correct)) (of_nat n)) (Some 100)) n correct])
      | Technical \<Rightarrow> feedback_results Technical (mi_technicalQuestions s) (mi_technicalAnswers s) fb
      | HR \<Rightarrow> feedback_results HR (mi_hrQuestions s) (mi_hrAnswers s) fb)"

text \<open>
  The body of the background fetch once both question sets have arrived.
\<close>

definition background_resolved :: "string list \<Rightarrow> string list \<Rightarrow> mock_interview \<Rightarrow> mock_interview" where
  "background_resolved techQs hrQs s =
     s\<lparr>mi_technicalQuestions := techQs,
       mi_technicalAnswers := replicate (length techQs) (Some []),
       mi_hrQuestions := hrQs,
       mi_hrAnswers := replicate (length hrQs) (Some []),
       mi_backgroundFetch := Resolved\<rparr>"

text \<open>
  \<open>if (backgroundFetchPromise.current) await backgroundFetchPromise.current\<close>.
  A pending promise settles during the wait: \<open>bg\<close> holds the two question sets,
  or \<open>None\<close> when the fetch fails.  The flag is false when the \<open>await\<close> throws.
\<close>

definition await_background ::
  "(string list \<times> string list) option \<Rightarrow> mock_interview \<Rightarrow> mock_interview \<times> bool" where
  "await_background bg s =
     (case mi_backgroundFetch s of
        NoPromise \<Rightarrow> (s, True)
      | Resolved \<Rightarrow> (s, True)
      | Rejected \<Rightarrow> (s, False)
      | Pending \<Rightarrow>
          (case bg of
             Some (techQs, hrQs) \<Rightarrow> (background_resolved techQs hrQs s, True)
           | None \<Rightarrow> (s\<lparr>mi_backgroundFetch := Rejected\<rparr>, False)))"

definition round_error :: "round_type \<Rightarrow> string" where
  "round_error rt =
     ''Failed to process the '' @ round_name rt
       @ '' round or load the next one. Please try again.''"

text \<open>
  \<open>proceedToNext\<close>, run as one step: the state after the function and the calls
  it started have finished, and the result list submitted for the report if
  \<open>finishInterview\<close> was called.  For a round index outside \<open>INTERVIEW_STRUCTURE\<close>
  the question count is \<open>undefined\<close> and the comparison is false.
\<close>

definition proceedToNext ::
  "feedback_outcome \<Rightarrow> (string list \<times> string list) option
     \<Rightarrow> (string \<times> string \<times> string) option \<Rightarrow> bool \<Rightarrow> mock_interview
     \<Rightarrow> mock_interview \<times> round_result list option" where
  "proceedToNext fb bg fin saved s =
     (if mi_currentRoundIndex s < length INTERVIEW_STRUCTURE
         \<and> mi_currentQuestionIndex s
             = ROUND_QUESTION_COUNT (INTERVIEW_STRUCTURE ! mi_currentRoundIndex s) - 1
      then
        (let currentRoundType = INTERVIEW_STRUCTURE ! mi_currentRoundIndex s;
             s1 = s\<lparr>mi_isLoading := True,
                     mi_loadingMessage :=
                       ''Analyzing '' @ round_name currentRoundType @ '' round...''\<rparr>
         in case score_round s currentRoundType fb of
              None \<Rightarrow>
                (s1\<lparr>mi_error := Some (round_error currentRoundType), mi_isLoading := False\<rparr>,
                 None)
            | Some newRoundResults \<Rightarrow>
                (let updatedResults = mi_roundResults s @ newRoundResults;
                     s2 = s1\<lparr>mi_roundResults := updatedResults\<rparr>
                 in if mi_currentRoundIndex s < length INTERVIEW_STRUCTURE - 1 then
                      (let s3 = s2\<lparr>mi_loadingMessage := ''Preparing next round...''\<rparr>;
                           (s4, ok) = await_background bg s3
                       in if ok then
                            (s4\<lparr>mi_currentRoundIndex := mi_currentRoundIndex s4 + 1,
                                mi_currentQuestionIndex := 0,
                                mi_isLoading := False\<rparr>, None)
                          else
                            (s4\<lparr>mi_error := Some (round_error currentRoundType),
                                mi_isLoading := False\<rparr>, None))
                    else
                      (let (s3, submitted) = finishInterview updatedResults fin saved s2
                       in (s3\<lparr>mi_isLoading := False\<rparr>, Some submitted))))
      else (s\<lparr>mi_currentQuestionIndex := mi_currentQuestionIndex s + 1\<rparr>, None))"

text \<open>
  The timer effect, run after a render: at \<open>timeLeft === 0\<close> in flow
  \<open>active\<close> it calls \<open>finishInterview(roundResults)\<close>; otherwise it leaves the
  state alone (while time is left it installs the interval, whose callback is
  \<open>tick\<close>).
\<close>

definition timerEffect ::
  "(string \<times> string \<times> string) option \<Rightarrow> bool \<Rightarrow> mock_interview
     \<Rightarrow> mock_interview \<times> round_result list option" where
  "timerEffect fin saved s =
     (if mi_flow s \<noteq> MActive \<or> mi_timeLeft s \<le> 0 then
        (if mi_flow s = MActive \<and> mi_timeLeft s = 0 then
           (let (s1, submitted) = finishInterview (mi_roundResults s) fin saved s
            in (s1, Some submitted))
         else (s, None))
      else (s, None))"

definition tick :: "mock_interview \<Rightarrow> mock_interview" where
  "tick s = s\<lparr>mi_timeLeft := mi_timeLeft s - 1\<rparr>"

text \<open>
  \<open>startInterview\<close>; \<open>aptiQuestions\<close> is the answer of
  \<open>generateAptitudeQuestions\<close>, \<open>None\<close> when it throws.
\<close>

definition startInterview :: "aptitude_question list option \<Rightarrow> mock_interview \<Rightarrow> mock_interview" where
  "startInterview aptiQuestions s =
     (case aptiQuestions of
        Some qs \<Rightarrow>
          s\<lparr>mi_error := None,
            mi_loadingMessage := ''Generating your first round...'',
            mi_aptitudeQuestions := qs,
            mi_aptitudeAnswers := replicate (length qs) None,
            mi_technicalQuestions := [],
            mi_technicalAnswers := [],
            mi_hrQuestions := [],
            mi_hrAnswers := [],
            mi_timeLeft := mi_duration s * 60,
            mi_currentRoundIndex := 0,
            mi_currentQuestionIndex := 0,
            mi_roundResults := [],
            mi_flow := MActive,
            mi_backgroundFetch := Pending,
            mi_isLoading := False\<rparr>
      | None \<Rightarrow>
          s\<lparr>mi_loadingMessage := ''Generating your first round...'',
            mi_error := Some
              ''Failed to set up the interview. Please check your API key and try again.'',
            mi_flow := MSetup,
            mi_isLoading := False\<rparr>)"

text \<open>
  The states the component can reach, one rule per handler or effect.  The guards are
  those of the rendering code: the start button exists in flow \<open>setup\<close>, the answer
  controls and the next button in flow \<open>active\<close>, "Try Another Mock" in flow
  \<open>results\<close>; the interval callback runs while the interview is active with time
  left.  Each handler runs to its end before the next event.
\<close>

inductive reachable :: "mock_interview \<Rightarrow> bool" where
  r_init: "reachable mi_initial"
| r_role: "reachable s \<Longrightarrow> mi_flow s = MSetup \<Longrightarrow> reachable (s\<lparr>mi_targetRole := r\<rparr>)"
| r_tier: "reachable s \<Longrightarrow> mi_flow s = MSetup \<Longrightarrow> reachable (s\<lparr>mi_targetCompanyTier := t\<rparr>)"
| r_duration: "reachable s \<Longrightarrow> mi_flow s = MSetup \<Longrightarrow> d \<in> {45, 60, 90}
     \<Longrightarrow> reachable (s\<lparr>mi_duration := d\<rparr>)"
| r_start: "reachable s \<Longrightarrow> mi_flow s = MSetup \<Longrightarrow> reachable (startInterview qs s)"
| r_fetched: "reachable s \<Longrightarrow> mi_backgroundFetch s = Pending
     \<Longrightarrow> reachable (background_resolved techQs hrQs s)"
| r_fetch_failed: "reachable s \<Longrightarrow> mi_backgroundFetch s = Pending
     \<Longrightarrow> reachable (s\<lparr>mi_backgroundFetch := Rejected\<rparr>)"
| r_answer_aptitude: "reachable s \<Longrightarrow> mi_flow s = MActive
     \<Longrightarrow> reachable (s\<lparr>mi_aptitudeAnswers :=
                        js_set (mi_aptitudeAnswers s) (mi_currentQuestionIndex s) a\<rparr>)"
| r_answer_technical: "reachable s \<Longrightarrow> mi_flow s = MActive
     \<Longrightarrow> reachable (s\<lparr>mi_technicalAnswers :=
                        js_set (mi_technicalAnswers s) (mi_currentQuestionIndex s) a\<rparr>)"
| r_answer_hr: "reachable s \<Longrightarrow> mi_flow s = MActive
     \<Longrightarrow> reachable (s\<lparr>mi_hrAnswers :=
                        js_set (mi_hrAnswers s) (mi_currentQuestionIndex s) a\<rparr>)"
| r_next: "reachable s \<Longrightarrow> mi_flow s = MActive
     \<Longrightarrow> reachable (fst (proceedToNext fb bg fin saved s))"
| r_tick: "reachable s \<Longrightarrow> mi_flow s = MActive \<Longrightarrow> mi_timeLeft s > 0 \<Longrightarrow> reachable (tick s)"
| r_timer: "reachable s \<Longrightarrow> reachable (fst (timerEffect fin saved s))"
| r_again: "reachable s \<Longrightarrow> mi_flow s = MResults \<Longrightarrow> reachable (s\<lparr>mi_flow := MSetup\<rparr>)"


text \<open>
  What the component shows of \<open>error\<close>.  The render is
  \<open>switch(flow)\<close>: \<open>renderActive\<close> for \<open>active\<close>, \<open>renderResults\<close> for
  \<open>results\<close>, \<open>renderSetup\<close> otherwise.  Only \<open>renderSetup\<close> reads
  \<open>error\<close>, as \<open>{error && <p>{error}</p>}\<close>; the other two never mention it.
  The result is the error text on the screen, if there is one.
\<close>

definition rendered_error :: "mock_interview \<Rightarrow> string option" where
  "rendered_error s =
     (case mi_flow s of
        MActive \<Rightarrow> None
      | MResults \<Rightarrow> None
      | MSetup \<Rightarrow>
          (case mi_error s of
             Some e \<Rightarrow> if e = [] then None else Some e
           | None \<Rightarrow> None))"


section \<open>Parsing the answers of the generative service (geminiService)\<close>

text \<open>
  A JavaScript value as \<open>JSON.parse\<close> returns it, and \<open>undefined\<close>.  In an
  object a later entry of the same key wins.
\<close>

datatype js_value =
    JUndefined | JNull | JBool bool | JNum rat | JStr string
  | JArr "js_value list" | JObj "(string \<times> js_value) list"

text \<open>
  Reading a property \<open>v.k\<close>, for the keys used below (none of them is defined on
  a prototype): \<open>None\<close> is the \<open>TypeError\<close> of reading from \<open>null\<close> or
  \<open>undefined\<close>.
\<close>

definition get_prop :: "js_value \<Rightarrow> string \<Rightarrow> js_value option" where
  "get_prop v k =
     (case v of
        JUndefined \<Rightarrow> None
      | JNull \<Rightarrow> None
      | JObj kvs \<Rightarrow> Some (case map_of (rev kvs) k of Some x \<Rightarrow> x | None \<Rightarrow> JUndefined)
      | _ \<Rightarrow> Some JUndefined)"

definition truthy :: "js_value \<Rightarrow> bool" where
  "truthy v =
     (case v of
        JUndefined \<Rightarrow> False | JNull \<Rightarrow> False | JBool b \<Rightarrow> b | JNum r \<Rightarrow> r \<noteq> 0
      | JStr s \<Rightarrow> s \<noteq> [] | JArr xs \<Rightarrow> True | JObj kvs \<Rightarrow> True)"

definition isArray :: "js_value \<Rightarrow> bool" where
  "isArray v = (case v of JArr xs \<Rightarrow> True | _ \<Rightarrow> False)"

text \<open>
  Each function below is the part of the service function of the same name that
  follows the call of the generative model.  \<open>parsed\<close> is the outcome of
  \<open>JSON.parse(response.text.trim())\<close>: \<open>None\<close> when that expression throws
  (the text is not valid JSON, or there is no text).  The result is \<open>Inr\<close> the
  returned value, or \<open>Inl\<close> the message of the \<open>Error\<close> the function throws.
\<close>

definition generateAptitudeQuestions :: "js_value option \<Rightarrow> string + js_value" where
  "generateAptitudeQuestions parsed =
     (case parsed of
        Some v \<Rightarrow> Inr v
      | None \<Rightarrow> Inl (''Failed to generate aptitude questions. ''
                      @ ''The AI response was not valid JSON.''))"

definition extractTopicFromGoal :: "js_value option \<Rightarrow> string + js_value" where
  "extractTopicFromGoal parsed =
     (case parsed of
        Some jsonText \<Rightarrow>
          (case get_prop jsonText ''topic'' of
             Some t \<Rightarrow> Inr t
           | None \<Rightarrow> Inr (JStr QUANTITATIVE))
      | None \<Rightarrow> Inr (JStr QUANTITATIVE))"

definition parseUserGoal :: "js_value option \<Rightarrow> string + js_value" where
  "parseUserGoal parsed =
     (case parsed of
        Some v \<Rightarrow> Inr v
      | None \<Rightarrow> Inl ''Failed to parse user goal. The AI response was not valid JSON.'')"

text \<open>
  The fallback loop of \<open>generateMultipleTechnicalQuestions\<close> and
  \<open>generateMultipleHrQuestions\<close>: \<open>for (let i = 0; i < count; i++)
  questions.push(await generateOne())\<close>, with \<open>n\<close> rounds to go.  \<open>single i\<close> is
  the outcome of the call in round \<open>i\<close>; a call that throws ends the loop and the
  function.  The parameter \<open>count\<close> is written \<open>cnt\<close>.
\<close>

primrec one_by_one ::
  "(nat \<Rightarrow> string + js_value) \<Rightarrow> nat \<Rightarrow> nat \<Rightarrow> js_value list \<Rightarrow> string + js_value" where
  "one_by_one single i 0 questions = Inr (JArr questions)"
| "one_by_one single i (Suc n) questions =
     (case single i of
        Inl e \<Rightarrow> Inl e
      | Inr q \<Rightarrow> one_by_one single (Suc i) n (questions @ [q]))"

definition generateMultipleTechnicalQuestions ::
  "nat \<Rightarrow> (nat \<Rightarrow> string + js_value) \<Rightarrow> js_value option \<Rightarrow> string + js_value" where
  "generateMultipleTechnicalQuestions cnt single parsed =
     (case parsed of
        Some v \<Rightarrow>
          (case get_prop v ''questions'' of
             Some qs \<Rightarrow> if truthy qs \<and> isArray qs then Inr qs
                       else one_by_one single 0 cnt []
           | None \<Rightarrow> one_by_one single 0 cnt [])
      | None \<Rightarrow> one_by_one single 0 cnt [])"

definition getTechnicalFeedbackAndFollowUp :: "js_value option \<Rightarrow> string + js_value" where
  "getTechnicalFeedbackAndFollowUp parsed =
     (case parsed of
        Some v \<Rightarrow> Inr v
      | None \<Rightarrow> Inr (JObj
          [(''feedback'',
            JStr (''I'm sorry, I had a little trouble processing that. Let's try another ''
                 @ ''angle.'')),
           (''followUpQuestion'',
            JStr (''Let's switch gears. What's a recent technical challenge you faced and ''
                 @ ''how did you overcome it?''))]))"

definition unable_feedbacks :: "'a list \<Rightarrow> js_value" where
  "unable_feedbacks conversation =
     JArr (map (\<lambda>turn. JStr ''Sorry, I was unable to generate feedback for this answer.'')
             conversation)"

definition getTechnicalInterviewFeedback ::
  "(string \<times> string) list \<Rightarrow> js_value option \<Rightarrow> string + js_value" where
  "getTechnicalInterviewFeedback conversation parsed =
     (case parsed of
        Some v \<Rightarrow>
          (case get_prop v ''feedbacks'' of
             Some fs \<Rightarrow> Inr fs
           | None \<Rightarrow> Inr (unable_feedbacks conversation))
      | None \<Rightarrow> Inr (unable_feedbacks conversation))"

definition report_default :: js_value where
  "report_default =
     JObj [(''rating'', JStr ''N/A''), (''summary'', JStr ''Error generating feedback.''),
           (''report'', JStr ''Could not generate a report.'')]"

definition getTechnicalSessionFeedback :: "js_value option \<Rightarrow> string + js_value" where
  "getTechnicalSessionFeedback parsed =
     (case parsed of Some v \<Rightarrow> Inr v | None \<Rightarrow> Inr report_default)"

definition generateMultipleHrQuestions ::
  "nat \<Rightarrow> (nat \<Rightarrow> string + js_value) \<Rightarrow> js_value option \<Rightarrow> string + js_value" where
  "generateMultipleHrQuestions cnt single parsed =
     (case parsed of
        Some v \<Rightarrow>
          (case get_prop v ''questions'' of
             Some qs \<Rightarrow> if truthy qs \<and> isArray qs then Inr qs
                       else one_by_one single 0 cnt []
           | None \<Rightarrow> one_by_one single 0 cnt [])
      | None \<Rightarrow> one_by_one single 0 cnt [])"

definition getHrInterviewFeedback ::
  "(string \<times> string) list \<Rightarrow> js_value option \<Rightarrow> string + js_value" where
  "getHrInterviewFeedback conversation parsed =
     (case parsed of
        Some v \<Rightarrow>
          (case get_prop v ''feedbacks'' of
             Some fs \<Rightarrow> if truthy fs \<and> isArray fs then Inr fs
                       else Inr (unable_feedbacks conversation)
           | None \<Rightarrow> Inr (unable_feedbacks conversation))
      | None \<Rightarrow> Inr (unable_feedbacks conversation))"

definition getHrFinalReport :: "js_value option \<Rightarrow> string + js_value" where
  "getHrFinalReport parsed =
     (case parsed of Some v \<Rightarrow> Inr v | None \<Rightarrow> Inr report_default)"

definition gd_topics_default :: js_value where
  "gd_topics_default =
     JArr [JObj [(''topic'', JStr ''Success vs. Hard Work: Is one more important?''),
                 (''description'',
                  JStr (''Many believe that relentless hard work is the sole key to achieving ''
                        @ ''one's goals. Others argue that 'working smart' or being in the right ''
                        @ ''place at the right time (luck/success) plays a larger role. In ''
                        @ ''today's world, which factor is a more critical determinant of ''
                        @ ''long-term professional achievement, and why?''))],
           JObj [(''topic'', JStr ''The Future of Open Source Software''),
                 (''description'',
                  JStr (''Open-source software powers much of the modern internet, yet it often ''
                        @ ''relies on unpaid volunteers, leading to burnout and security risks. ''
                        @ ''Should large corporations that profit from open-source be mandated to ''
                        @ ''contribute financially to these projects, or would that stifle the ''
                        @ ''community-driven spirit of the movement?''))],
           JObj [(''topic'', JStr ''Gig Economy: Liberation or Exploitation?''),
                 (''description'',
                  JStr (''Platforms like Uber, DoorDash, and freelance marketplaces offer ''
                        @ ''flexibility and autonomy to millions. However, they are also ''
                        @ ''criticized for a lack of worker protections, benefits, and stable ''
                        @ ''income. Is the gig economy a modern form of worker empowerment or a ''
                        @ ''loophole that allows companies to bypass traditional labor laws?''))]]"

definition generateGdTopics :: "js_value option \<Rightarrow> string + js_value" where
  "generateGdTopics parsed =
     (case parsed of
        Some v \<Rightarrow>
          (case get_prop v ''topics'' of
             Some (JArr ts) \<Rightarrow> if length ts > 0 then Inr (JArr ts) else Inr gd_topics_default
           | _ \<Rightarrow> Inr gd_topics_default)
      | None \<Rightarrow> Inr gd_topics_default)"

definition orchestrateGdTurn :: "string \<Rightarrow> js_value option \<Rightarrow> string + js_value" where
  "orchestrateGdTurn ai1Name parsed =
     (let fallback =
            JArr [JObj [(''participant'', JStr ai1Name),
                        (''message'',
                         JStr (''I'm sorry, I seem to have lost my train of thought. Could you repeat ''
                 @ ''your last point?''))]]
      in case parsed of
           Some v \<Rightarrow>
             (case get_prop v ''responses'' of
                Some rs \<Rightarrow> Inr rs
              | None \<Rightarrow> Inr fallback)
         | None \<Rightarrow> Inr fallback)"

definition reviewProfile :: "js_value option \<Rightarrow> string + js_value" where
  "reviewProfile parsed =
     (case parsed of
        Some v \<Rightarrow> Inr v
      | None \<Rightarrow> Inr (JObj
          [(''rating'', JStr ''N/A''), (''summary'', JStr ''Error generating feedback.''),
           (''keyRecommendations'', JArr []),
           (''feedback'', JStr ''Could not generate a report.'')]))"

definition getMockInterviewOverallFeedback :: "js_value option \<Rightarrow> string + js_value" where
  "getMockInterviewOverallFeedback parsed =
     (case parsed of
        Some v \<Rightarrow> Inr v
      | None \<Rightarrow> Inr (JObj
          [(''recommendation'', JStr ''N/A''), (''summary'', JStr ''Error generating feedback.''),
           (''report'', JStr ''Could not generate a report.'')]))"


section \<open>Saving a history record (firestoreService: saveInterviewHistory)\<close>

datatype tier = Bronze | Silver | Gold

text \<open>
  A badge definition of the catalog \<open>allBadges\<close>, and a badge document of
  \<open>users/{userId}/badges\<close>: the definition with \<open>earned\<close> and \<open>earnedAt\<close>.
\<close>

record badge_def =
  badge_id :: string
  badge_name :: string
  description :: string
  icon :: string
  tier :: tier

record badge = badge_def +
  earned :: bool
  earnedAt :: "date option"

definition allBadges :: "badge_def list" where
  "allBadges =
     [\<lparr>badge_id = ''streak-7'', badge_name = ''Consistent Learner'',
        description = ''Maintain a 7-day practice streak.'',
        icon = ''Flame'', tier = Bronze\<rparr>,
      \<lparr>badge_id = ''streak-30'', badge_name = ''Dedicated Scholar'',
        description = ''Maintain a 30-day practice streak.'',
        icon = ''Flame'', tier = Silver\<rparr>,
      \<lparr>badge_id = ''weekend-warrior'', badge_name = ''Weekend Warrior'',
        description = ''Complete a practice session on a weekend.'',
        icon = ''Calendar'', tier = Bronze\<rparr>,
      \<lparr>badge_id = ''apti-10'', badge_name = ''Aptitude Explorer'',
        description = ''Complete 10 aptitude quizzes.'',
        icon = ''Calculator'', tier = Bronze\<rparr>,
      \<lparr>badge_id = ''apti-50'', badge_name = ''Aptitude Veteran'',
        description = ''Complete 50 aptitude quizzes.'',
        icon = ''Calculator'', tier = Silver\<rparr>,
      \<lparr>badge_id = ''apti-perfect'', badge_name = ''Perfectionist'',
        description = ''Score 100% on an aptitude quiz with at least 10 questions.'',
        icon = ''Target'', tier = Gold\<rparr>,
      \<lparr>badge_id = ''quant-master'', badge_name = ''Quant Master'',
        description = ''Score >90% in a Quantitative Aptitude quiz.'',
        icon = ''Chart'', tier = Silver\<rparr>,
      \<lparr>badge_id = ''logical-master'', badge_name = ''Logic Wizard'',
        description = ''Score >90% in a Logical Reasoning quiz.'',
        icon = ''Brain'', tier = Silver\<rparr>,
      \<lparr>badge_id = ''verbal-master'', badge_name = ''Verbal Virtuoso'',
        description = ''Score >90% in a Verbal Ability quiz.'',
        icon = ''Book'', tier = Silver\<rparr>,
      \<lparr>badge_id = ''di-detective'', badge_name = ''Data Detective'',
        description = ''Score over 90% in a Data Interpretation quiz.'',
        icon = ''Chart'', tier = Silver\<rparr>,
      \<lparr>badge_id = ''diagnostic-complete'', badge_name = ''Self-Aware'',
        description = ''Complete your first diagnostic test.'',
        icon = ''Target'', tier = Bronze\<rparr>,
      \<lparr>badge_id = ''diagnostic-high-potential'', badge_name = ''High Potential'',
        description = ''Score over 75% on a diagnostic test.'',
        icon = ''Target'', tier = Silver\<rparr>,
      \<lparr>badge_id = ''tech-5'', badge_name = ''Techie'',
        description = ''Complete 5 technical interview sessions.'',
        icon = ''Code'', tier = Bronze\<rparr>,
      \<lparr>badge_id = ''hr-5'', badge_name = ''Communicator'',
        description = ''Complete 5 HR interview sessions.'',
        icon = ''Users'', tier = Bronze\<rparr>,
      \<lparr>badge_id = ''gd-5'', badge_name = ''Debater'',
        description = ''Participate in 5 group discussions.'',
        icon = ''Chat'', tier = Bronze\<rparr>,
      \<lparr>badge_id = ''mock-star'', badge_name = ''Mock Star'',
        description = ''Complete 3 full mock interviews.'',
        icon = ''Briefcase'', tier = Silver\<rparr>,
      \<lparr>badge_id = ''profile-auditor'', badge_name = ''Auditor'',
        description = ''Get your profile reviewed for the first time.'',
        icon = ''Document'', tier = Bronze\<rparr>,
      \<lparr>badge_id = ''revisionist'', badge_name = ''Revisionist'',
        description = ''Add 10 or more questions to your Review Hub.'',
        icon = ''Bookmark'', tier = Bronze\<rparr>,
      \<lparr>badge_id = ''well-rounded'', badge_name = ''Well-Rounded'',
        description = ''Try every prep module at least once.'',
        icon = ''Globe'', tier = Gold\<rparr>]"

text \<open>
  The batch of \<open>updateUserStreakAndBadges\<close>: for every new badge id found in the
  catalog, \<open>batch.set\<close> writes the badge document under that id.
\<close>

definition commit_badges :: "date \<Rightarrow> string list \<Rightarrow> (string \<rightharpoonup> badge) \<Rightarrow> (string \<rightharpoonup> badge)" where
  "commit_badges srv newBadgeIds store =
     fold (\<lambda>badgeId st.
             case find (\<lambda>b. badge_id b = badgeId) allBadges of
               Some badgeDef \<Rightarrow>
                 st(badgeId \<mapsto> badge_def.extend badgeDef
                                   (badge.fields True (Some srv)))
             | None \<Rightarrow> st)
       newBadgeIds store"

text \<open>A \<open>RevisionQuestion\<close> document.\<close>

record revision_question =
  rq_userId :: string
  rq_question :: aptitude_question
  quizTopic :: string
  rq_timestamp :: "date option"

text \<open>
  The part of the document store that the save touches: the profiles, and per user
  the history, the revision questions and the badge documents.
\<close>

record store =
  st_users :: users
  st_history :: "string \<Rightarrow> interview_history list"
  st_revision :: "string \<Rightarrow> revision_question list"
  st_badges :: "string \<Rightarrow> (string \<rightharpoonup> badge)"

text \<open>
  \<open>getInterviewHistory\<close>: ordered by \<open>timestamp\<close> descending (documents
  without the field are not returned), limit 100.  \<open>getRevisionQuestions\<close>: the
  user's documents, ordered by \<open>timestamp\<close>; only their number is used.
\<close>

definition getInterviewHistory :: "store \<Rightarrow> string \<Rightarrow> interview_history list" where
  "getInterviewHistory db uid =
     take 100 (sort_key desc_key (filter (\<lambda>h. timestamp h \<noteq> None) (st_history db uid)))"

definition getRevisionQuestions :: "store \<Rightarrow> string \<Rightarrow> revision_question list" where
  "getRevisionQuestions db uid =
     filter (\<lambda>q. rq_userId q = uid \<and> rq_timestamp q \<noteq> None) (st_revision db uid)"

text \<open>
  \<open>updateUserStreakAndBadges\<close>: the streak update followed by the badge update.
  An absent streak is passed to the badge check as \<open>undefined\<close>, for which
  \<open>streak >= 7\<close> and \<open>streak >= 30\<close> are false, as they are for 0.
\<close>

definition updateUserStreakAndBadges :: "int \<Rightarrow> date \<Rightarrow> date \<Rightarrow> string \<Rightarrow> store \<Rightarrow> store" where
  "updateUserStreakAndBadges tz now srv uid db =
     (let (profile, users') = updateUserStreak tz now srv uid (st_users db);
          db1 = db\<lparr>st_users := users'\<rparr>;
          allHistory = getInterviewHistory db1 uid;
          revisionQuestions = getRevisionQuestions db1 uid;
          newBadgeIds = checkAllBadges tz now allHistory (streak_or_zero profile)
                          (length revisionQuestions)
      in db1\<lparr>st_badges := (st_badges db1)
               (uid := commit_badges srv newBadgeIds (st_badges db1 uid))\<rparr>)"

text \<open>
  \<open>saveInterviewHistory\<close>: the record is added with the server timestamp
  \<open>srv0\<close>, then streak and badges are updated (at client time \<open>now\<close>, written
  with server timestamp \<open>srv\<close>).
\<close>

definition saveInterviewHistory ::
  "int \<Rightarrow> date \<Rightarrow> date \<Rightarrow> date \<Rightarrow> string \<Rightarrow> interview_history \<Rightarrow> store \<Rightarrow> store" where
  "saveInterviewHistory tz srv0 now srv uid historyData db =
     updateUserStreakAndBadges tz now srv uid
       (db\<lparr>st_history := (st_history db)
              (uid := historyData\<lparr>timestamp := Some srv0\<rparr> # st_history db uid)\<rparr>)"


section \<open>Theorems: numbers\<close>

lemma bits_bounds: "0 < n \<Longrightarrow> 2 ^ (bits n - 1) \<le> n \<and> n < 2 ^ bits n"
proof (induction n rule: bits.induct)
  case (1 n)
  show ?case
  proof (cases "n div 2 \<le> 0")
    case True
    with "1.prems" have "n = 1" by linarith
    then show ?thesis by (simp add: bits.simps)
  next
    case False
    then have p: "0 < n div 2" by simp
    from "1.IH" [OF _ p] "1.prems"
    have ih: "2 ^ (bits (n div 2) - 1) \<le> n div 2" "n div 2 < 2 ^ bits (n div 2)" by auto
    have b: "bits n = Suc (bits (n div 2))" using "1.prems" by (simp add: bits.simps)
    have pos: "0 < bits (n div 2)" using p by (simp add: bits.simps)
    then have e: "bits n - 1 = Suc (bits (n div 2) - 1)" using b by simp
    have "(2::int) ^ (bits n - 1) = 2 * 2 ^ (bits (n div 2) - 1)"
      by (simp only: e power_Suc)
    also have "\<dots> \<le> 2 * (n div 2)" using ih(1) by simp
    also have "\<dots> \<le> n" by simp
    finally have lo: "2 ^ (bits n - 1) \<le> n" .
    have "n < 2 * (n div 2) + 2" by linarith
    also have "\<dots> \<le> 2 * 2 ^ bits (n div 2)" using ih(2) by linarith
    also have "\<dots> = 2 ^ bits n" by (simp only: b power_Suc)
    finally have hi: "n < 2 ^ bits n" .
    from lo hi show ?thesis by simp
  qed
qed

lemma pow2_pos: "0 < pow2 e"
  by (simp add: pow2_def)

lemma pow2_int: "pow2 (int k) = 2 ^ k"
  by (simp add: pow2_def)

lemma pow2_neg: "pow2 (- int k) = 1 / 2 ^ k"
  by (cases "k = 0") (simp_all add: pow2_def)

lemma pow2_powi: "pow2 e = 2 powi e"
  by (simp add: pow2_def power_int_def inverse_eq_divide power_one_over)

lemma pow2_add: "pow2 (a + b) = pow2 a * pow2 b"
  by (simp add: pow2_powi power_int_add)

lemma pow2_mono: "a \<le> b \<Longrightarrow> pow2 a \<le> pow2 b"
  by (simp add: pow2_powi power_int_increasing)

lemma exponent_bounds:
  assumes "0 < x"
  shows "pow2 (exponent x) \<le> x \<and> x < pow2 (exponent x + 1)"
proof (cases "1 \<le> x")
  case True
  let ?m = "\<lfloor>x\<rfloor>"
  have m: "0 < ?m" using True by linarith
  from bits_bounds [OF m] have b: "2 ^ (bits ?m - 1) \<le> ?m" "?m < 2 ^ bits ?m" by auto
  have bp: "0 < bits ?m" using m by (simp add: bits.simps)
  have e: "exponent x = int (bits ?m - 1)" using True bp by (simp add: exponent_def)
  have "(of_int (2 ^ (bits ?m - 1)) :: rat) \<le> of_int ?m" using b(1) by (simp only: of_int_le_iff)
  moreover have "(of_int ?m :: rat) \<le> x" by (rule of_int_floor_le)
  moreover have "(of_int (2 ^ (bits ?m - 1)) :: rat) = 2 ^ (bits ?m - 1)" by simp
  ultimately have "2 ^ (bits ?m - 1) \<le> x" by linarith
  then have lo: "pow2 (exponent x) \<le> x" by (simp only: e pow2_int)
  have "?m + 1 \<le> 2 ^ bits ?m" using b(2) by simp
  then have "(of_int (?m + 1) :: rat) \<le> of_int (2 ^ bits ?m)" by (simp only: of_int_le_iff)
  moreover have "x < of_int (?m + 1)" by linarith
  moreover have "(of_int (2 ^ bits ?m) :: rat) = 2 ^ bits ?m" by simp
  ultimately have "x < 2 ^ bits ?m" by linarith
  moreover have "exponent x + 1 = int (bits ?m)" using e bp by simp
  ultimately have hi: "x < pow2 (exponent x + 1)" by (simp only: pow2_int)
  from lo hi show ?thesis ..
next
  case False
  then have x1: "x < 1" by simp
  let ?y = "1 / x"
  let ?k = "bits (\<lceil>?y\<rceil> - 1)"
  have y1: "1 < ?y" using assms x1 by simp
  then have c: "0 < \<lceil>?y\<rceil> - 1" by linarith
  from bits_bounds [OF c] have b: "2 ^ (?k - 1) \<le> \<lceil>?y\<rceil> - 1" "\<lceil>?y\<rceil> - 1 < 2 ^ ?k" by auto
  have kp: "0 < ?k" using c by (simp add: bits.simps)
  have e: "exponent x = - int ?k" using False by (simp add: exponent_def)
  have "\<lceil>?y\<rceil> \<le> 2 ^ ?k" using b(2) by simp
  then have "(of_int \<lceil>?y\<rceil> :: rat) \<le> of_int (2 ^ ?k)" by (simp only: of_int_le_iff)
  moreover have "?y \<le> of_int \<lceil>?y\<rceil>" by (rule le_of_int_ceiling)
  moreover have "(of_int (2 ^ ?k) :: rat) = 2 ^ ?k" by simp
  ultimately have yk: "?y \<le> 2 ^ ?k" by linarith
  have "(of_int (2 ^ (?k - 1)) :: rat) \<le> of_int (\<lceil>?y\<rceil> - 1)" using b(1) by (simp only: of_int_le_iff)
  moreover have "(of_int (\<lceil>?y\<rceil> - 1) :: rat) < ?y" by linarith
  moreover have "(of_int (2 ^ (?k - 1)) :: rat) = 2 ^ (?k - 1)" by simp
  ultimately have ky: "2 ^ (?k - 1) < ?y" by linarith
  have lo: "pow2 (exponent x) \<le> x"
  proof -
    have "1 / 2 ^ ?k \<le> x" using yk assms by (simp add: field_simps)
    then show ?thesis by (simp add: e pow2_neg)
  qed
  have hi: "x < pow2 (exponent x + 1)"
  proof -
    have "x < 1 / 2 ^ (?k - 1)" using ky assms by (simp add: field_simps)
    moreover have "exponent x + 1 = - int (?k - 1)" using e kp by simp
    ultimately show ?thesis by (simp add: pow2_neg)
  qed
  from lo hi show ?thesis ..
qed

lemma round_even_error: "\<bar>of_int (round_even x) - x\<bar> \<le> 1 / 2"
proof -
  have f: "of_int \<lfloor>x\<rfloor> \<le> x" "x < of_int \<lfloor>x\<rfloor> + 1" by linarith+
  consider "x - of_int \<lfloor>x\<rfloor> < 1 / 2" | "x - of_int \<lfloor>x\<rfloor> > 1 / 2"
    | "x - of_int \<lfloor>x\<rfloor> = 1 / 2" by linarith
  then show ?thesis
  proof cases
    case 1
    then have "round_even x = \<lfloor>x\<rfloor>" by (simp add: round_even_def Let_def)
    with 1 f show ?thesis by simp
  next
    case 2
    then have "round_even x = \<lfloor>x\<rfloor> + 1" by (simp add: round_even_def Let_def)
    with 2 f show ?thesis by simp
  next
    case 3
    then have "round_even x = \<lfloor>x\<rfloor> \<or> round_even x = \<lfloor>x\<rfloor> + 1"
      by (simp add: round_even_def Let_def)
    with 3 f show ?thesis by auto
  qed
qed

lemma round_finite_error:
  "\<bar>round_finite x - x\<bar> \<le> \<bar>x\<bar> * pow2 (- 53) + pow2 (- 1075)"
proof (cases "x = 0")
  case True
  then show ?thesis using pow2_pos [of "- 1075"] by (simp add: round_finite_def)
next
  case False
  let ?a = "\<bar>x\<bar>"
  let ?e = "max (exponent ?a) (- 1022)"
  let ?ulp = "pow2 (?e - 52)"
  let ?m = "round_even (?a / ?ulp)"
  have a: "0 < ?a" using False by simp
  have u: "0 < ?ulp" by (rule pow2_pos)
  have r: "round_finite x = sgn x * (of_int ?m * ?ulp)"
    using False by (simp add: round_finite_def Let_def)
  have sx: "sgn x * ?a = x" by (rule sgn_mult_abs)
  have "round_finite x - x = sgn x * (of_int ?m * ?ulp) - sgn x * ?a"
    by (simp only: r sx)
  also have "\<dots> = sgn x * (of_int ?m * ?ulp - ?a)"
    by (simp only: right_diff_distrib)
  finally have "\<bar>round_finite x - x\<bar> = \<bar>sgn x\<bar> * \<bar>of_int ?m * ?ulp - ?a\<bar>"
    by (simp only: abs_mult)
  also have "\<dots> = \<bar>of_int ?m * ?ulp - ?a\<bar>" using False by (simp add: abs_sgn_eq)
  also have "\<dots> = \<bar>of_int ?m - ?a / ?ulp\<bar> * ?ulp"
  proof -
    have "of_int ?m * ?ulp - ?a = (of_int ?m - ?a / ?ulp) * ?ulp"
      using u by (simp add: field_simps)
    then show ?thesis using u by (simp add: abs_mult)
  qed
  also have "\<dots> \<le> 1 / 2 * ?ulp"
    using round_even_error [of "?a / ?ulp"] u by (intro mult_right_mono) simp_all
  also have "\<dots> = pow2 (?e - 53)"
  proof -
    have "pow2 (?e - 52) = pow2 (?e - 53) * pow2 1"
      by (simp flip: pow2_add)
    then show ?thesis by (simp add: pow2_def)
  qed
  also have "\<dots> \<le> ?a * pow2 (- 53) + pow2 (- 1075)"
  proof (cases "exponent ?a \<ge> - 1022")
    case True
    then have "pow2 (?e - 53) = pow2 (exponent ?a) * pow2 (- 53)"
      by (simp add: max_def flip: pow2_add)
    also have "\<dots> \<le> ?a * pow2 (- 53)"
      using exponent_bounds [OF a] pow2_pos [of "- 53"] by (intro mult_right_mono) simp_all
    finally show ?thesis using pow2_pos [of "- 1075"] by linarith
  next
    case False
    then have "pow2 (?e - 53) = pow2 (- 1075)" by (simp add: max_def)
    moreover have "0 \<le> ?a * pow2 (- 53)" using pow2_pos [of "- 53"] by simp
    ultimately show ?thesis by linarith
  qed
  finally show ?thesis .
qed

lemma pow2_1075_le: "pow2 (- 1075) \<le> pow2 (- 53) / 2"
proof -
  have "pow2 (- 1075) \<le> pow2 (- 54)" by (rule pow2_mono) simp
  also have "pow2 (- 54) = pow2 (- 53) * pow2 (- 1)" by (simp flip: pow2_add)
  also have "\<dots> = pow2 (- 53) / 2" by (simp add: pow2_def)
  finally show ?thesis .
qed

lemma pow2_53_le: "pow2 (- 53) \<le> 1 / 2"
proof -
  have "pow2 (- 53) \<le> pow2 (- 1)" by (rule pow2_mono) simp
  then show ?thesis by (simp add: pow2_def)
qed

text \<open>
  A result of magnitude at most \<open>10^301\<close> is finite after rounding, and rounding
  changes it by at most the relative error \<open>2^-53\<close> plus half the smallest
  subnormal.
\<close>

lemma to_double_finite:
  assumes "\<bar>x\<bar> \<le> 10 ^ 301"
  shows "to_double x = Some (round_finite x)"
proof -
  let ?r = "round_finite x"
  have e: "\<bar>?r - x\<bar> \<le> \<bar>x\<bar> * pow2 (- 53) + pow2 (- 1075)" by (rule round_finite_error)
  have "\<bar>x\<bar> * pow2 (- 53) \<le> \<bar>x\<bar> * (1 / 2)"
    by (intro mult_left_mono pow2_53_le) simp
  moreover have "pow2 (- 1075) \<le> 1"
    using pow2_1075_le pow2_53_le by linarith
  ultimately have "\<bar>?r\<bar> \<le> 2 * \<bar>x\<bar> + 1" using e by linarith
  also have "\<dots> \<le> 2 * 10 ^ 301 + 1" using assms by simp
  also have "\<dots> < pow2 1024" by (simp add: pow2_def)
  finally have "\<not> pow2 1024 \<le> \<bar>?r\<bar>" by simp
  then show ?thesis by (simp add: to_double_def Let_def)
qed

lemma to_double_error:
  assumes "\<bar>x\<bar> \<le> 10 ^ 301"
  shows "\<exists>r. to_double x = Some r \<and> \<bar>r - x\<bar> \<le> \<bar>x\<bar> * pow2 (- 53) + pow2 (- 1075)"
  using to_double_finite [OF assms] round_finite_error [of x] by simp

text \<open>
  The rounded sum from the left: with all terms of magnitude at most \<open>B\<close>, the
  running sum stays finite, and every addition adds its own rounding error and no
  more.
\<close>

lemma js_sum_error:
  assumes "\<forall>x \<in> set xs. \<bar>x\<bar> \<le> B" and "\<bar>acc\<bar> + B + 1 \<le> T"
    and "3 ^ length xs * T \<le> 10 ^ 301"
  shows "\<exists>r. foldl (\<lambda>acc score. js_add acc (Some score)) (Some acc) xs = Some r
            \<and> \<bar>r\<bar> + B + 1 \<le> 3 ^ length xs * T
            \<and> \<bar>r - (acc + sum_list xs)\<bar>
                 \<le> of_nat (length xs) * (3 ^ length xs * T * pow2 (- 53) + pow2 (- 1075))"
  using assms
proof (induction xs arbitrary: acc T)
  case Nil
  then show ?case by simp
next
  case (Cons x xs)
  let ?u = "pow2 (- 53)" and ?v = "pow2 (- 1075)"
  have u0: "0 < ?u" and v0: "0 < ?v" by (rule pow2_pos)+
  have xB: "\<bar>x\<bar> \<le> B" using Cons.prems(1) by simp
  have T0: "0 \<le> T" using Cons.prems(2) xB by linarith
  have p3: "(1::rat) \<le> 3 ^ length xs" by simp
  have TT: "3 * T \<le> 3 ^ length (x # xs) * T"
    using mult_right_mono [OF p3 T0] by simp
  have ax: "\<bar>acc + x\<bar> \<le> T" using Cons.prems(2) xB by linarith
  have "T \<le> 3 * T" using T0 by simp
  with TT Cons.prems(3) have "\<bar>acc + x\<bar> \<le> 10 ^ 301" using ax by linarith
  from to_double_error [OF this] obtain a where
    a: "to_double (acc + x) = Some a" "\<bar>a - (acc + x)\<bar> \<le> \<bar>acc + x\<bar> * ?u + ?v"
    by blast
  have au: "\<bar>acc + x\<bar> * ?u \<le> T * ?u" using ax u0 by (intro mult_right_mono) simp_all
  have "T * ?u \<le> T * (1 / 2)" using T0 by (intro mult_left_mono pow2_53_le)
  moreover have "?v \<le> 1" using pow2_1075_le pow2_53_le by linarith
  ultimately have aT: "\<bar>a\<bar> + B + 1 \<le> 3 * T" using a(2) au ax Cons.prems(2) xB by linarith
  have l: "3 ^ length xs * (3 * T) = 3 ^ length (x # xs) * T" by simp
  have "\<exists>r. foldl (\<lambda>acc score. js_add acc (Some score)) (Some a) xs = Some r
            \<and> \<bar>r\<bar> + B + 1 \<le> 3 ^ length xs * (3 * T)
            \<and> \<bar>r - (a + sum_list xs)\<bar>
                 \<le> of_nat (length xs) * (3 ^ length xs * (3 * T) * ?u + ?v)"
    using Cons.prems(1,3) aT by (intro Cons.IH) (simp_all add: mult.assoc)
  then obtain r where r: "foldl (\<lambda>acc score. js_add acc (Some score)) (Some a) xs = Some r"
    "\<bar>r\<bar> + B + 1 \<le> 3 ^ length (x # xs) * T"
    "\<bar>r - (a + sum_list xs)\<bar>
        \<le> of_nat (length xs) * (3 ^ length (x # xs) * T * ?u + ?v)"
    unfolding l by blast
  have f: "foldl (\<lambda>acc score. js_add acc (Some score)) (Some acc) (x # xs) = Some r"
    using a(1) r(1) by (simp add: js_add_def)
  have "T * ?u \<le> 3 ^ length (x # xs) * T * ?u"
    using TT T0 u0 by (intro mult_right_mono) simp_all
  with a(2) au have s: "\<bar>a - (acc + x)\<bar> \<le> 3 ^ length (x # xs) * T * ?u + ?v" by linarith
  have "\<bar>r - (acc + sum_list (x # xs))\<bar> \<le> \<bar>r - (a + sum_list xs)\<bar> + \<bar>a - (acc + x)\<bar>"
    by simp
  also have "\<dots> \<le> of_nat (length xs) * (3 ^ length (x # xs) * T * ?u + ?v)
                   + (3 ^ length (x # xs) * T * ?u + ?v)"
    using r(3) s by linarith
  also have "\<dots> = of_nat (length (x # xs)) * (3 ^ length (x # xs) * T * ?u + ?v)"
    by (simp add: algebra_simps)
  finally show ?case using f r(2) by blast
qed

lemma js_average_error:
  assumes "xs \<noteq> []" and "length xs \<le> 5" and "\<forall>x \<in> set xs. \<bar>x\<bar> \<le> B"
    and "B \<le> 10 ^ 298"
  shows "\<exists>a. js_average xs = Some a
            \<and> \<bar>a - sum_list xs / of_nat (length xs)\<bar> \<le> (B + 1) * pow2 (- 44)"
proof -
  let ?u = "pow2 (- 53)" and ?v = "pow2 (- 1075)"
  let ?n = "of_nat (length xs) :: rat"
  let ?W = "243 * (B + 1)"
  have u0: "0 < ?u" and v0: "0 < ?v" by (rule pow2_pos)+
  obtain x where "x \<in> set xs" using assms(1) by (cases xs) auto
  with assms(3) have B0: "0 \<le> B" by force
  have n1: "1 \<le> ?n" using assms(1) by (cases xs) simp_all
  have n5: "?n \<le> 5" using assms(2) by simp
  have "(3::rat) ^ length xs \<le> 3 ^ 5" using assms(2) by (intro power_increasing) simp_all
  then have p: "(3::rat) ^ length xs \<le> 243" by simp
  have W: "3 ^ length xs * (B + 1) \<le> ?W"
    using p B0 by (intro mult_right_mono) simp_all
  have W301: "?W \<le> 10 ^ 301" using assms(4) by simp
  have "\<exists>r. foldl (\<lambda>acc score. js_add acc (Some score)) (Some 0) xs = Some r
            \<and> \<bar>r\<bar> + B + 1 \<le> 3 ^ length xs * (B + 1)
            \<and> \<bar>r - (0 + sum_list xs)\<bar>
                 \<le> ?n * (3 ^ length xs * (B + 1) * ?u + ?v)"
    using W W301 by (intro js_sum_error assms(3)) simp_all
  then obtain r where r: "foldl (\<lambda>acc score. js_add acc (Some score)) (Some 0) xs = Some r"
    "\<bar>r\<bar> + B + 1 \<le> 3 ^ length xs * (B + 1)"
    "\<bar>r - sum_list xs\<bar> \<le> ?n * (3 ^ length xs * (B + 1) * ?u + ?v)"
    by auto
  have rW: "\<bar>r\<bar> \<le> ?W" using r(2) W B0 by linarith
  have Wu: "3 ^ length xs * (B + 1) * ?u \<le> ?W * ?u"
    using mult_right_mono [OF W, of ?u] u0 by simp
  have d: "\<bar>r - sum_list xs\<bar> / ?n \<le> ?W * ?u + ?v"
  proof -
    have n0': "0 < ?n" using n1 by linarith
    have "\<bar>r - sum_list xs\<bar> \<le> ?n * (?W * ?u + ?v)"
    proof -
      have "?n * (3 ^ length xs * (B + 1) * ?u + ?v) \<le> ?n * (?W * ?u + ?v)"
        using Wu n1 by (intro mult_left_mono) simp_all
      with r(3) show ?thesis by linarith
    qed
    then have "\<bar>r - sum_list xs\<bar> \<le> (?W * ?u + ?v) * ?n" by (simp only: mult.commute)
    then show ?thesis by (simp only: pos_divide_le_eq [OF n0'])
  qed
  have q: "\<bar>r / ?n\<bar> \<le> ?W"
  proof -
    have np: "0 < ?n" using n1 by linarith
    have "\<bar>r / ?n\<bar> = \<bar>r\<bar> / ?n" using np by (simp only: abs_divide abs_of_pos)
    also have "\<dots> \<le> \<bar>r\<bar> / 1" using n1 assms(1) by (intro divide_left_mono) simp_all
    finally show ?thesis using rW by simp
  qed
  then have "\<bar>r / ?n\<bar> \<le> 10 ^ 301" using W301 by linarith
  from to_double_error [OF this] obtain a where
    a: "to_double (r / ?n) = Some a" "\<bar>a - r / ?n\<bar> \<le> \<bar>r / ?n\<bar> * ?u + ?v"
    by blast
  have n0: "?n \<noteq> 0" using assms(1) by simp
  have avg: "js_average xs = Some a"
    using r(1) a(1) n0 by (simp add: js_average_def js_div_def)
  have "\<bar>r / ?n\<bar> * ?u \<le> ?W * ?u" using q u0 by (intro mult_right_mono) simp_all
  with a(2) have 1: "\<bar>a - r / ?n\<bar> \<le> ?W * ?u + ?v" by linarith
  have "r / ?n - sum_list xs / ?n = (r - sum_list xs) / ?n" by (simp add: diff_divide_distrib)
  moreover have "0 < ?n" using n1 by linarith
  ultimately have "\<bar>r / ?n - sum_list xs / ?n\<bar> = \<bar>r - sum_list xs\<bar> / ?n"
    by (simp only: abs_divide abs_of_pos)
  with d have 2: "\<bar>r / ?n - sum_list xs / ?n\<bar> \<le> ?W * ?u + ?v" by simp
  have "\<bar>a - sum_list xs / ?n\<bar> \<le> \<bar>a - r / ?n\<bar> + \<bar>r / ?n - sum_list xs / ?n\<bar>" by simp
  also have "\<dots> \<le> 2 * (?W * ?u) + 2 * ?v" using 1 2 by linarith
  also have "\<dots> \<le> 512 * ((B + 1) * ?u)"
  proof -
    have "?u \<le> (B + 1) * ?u" using B0 u0 by (simp add: mult_le_cancel_right1)
    moreover have "2 * ?v \<le> ?u" using pow2_1075_le by linarith
    moreover have "0 \<le> (B + 1) * ?u" using B0 u0 by simp
    ultimately show ?thesis by (simp add: algebra_simps)
  qed
  also have "\<dots> = (B + 1) * pow2 (- 44)"
  proof -
    have "pow2 (- 44) = pow2 (- 53) * pow2 9" by (simp flip: pow2_add)
    also have "pow2 9 = 512" by (simp add: pow2_def)
    finally show ?thesis by simp
  qed
  finally show ?thesis using avg by blast
qed

lemma js_score_error:
  assumes "c \<le> n" and "0 < n"
  shows "\<exists>x. js_mul (js_div (Some (of_nat c)) (of_nat n)) (Some 100) = Some x
            \<and> \<bar>x - of_nat c / of_nat n * 100\<bar> \<le> pow2 (- 44)"
proof -
  let ?u = "pow2 (- 53)" and ?v = "pow2 (- 1075)"
  let ?t = "of_nat c / of_nat n :: rat"
  have u0: "0 < ?u" and v0: "0 < ?v" by (rule pow2_pos)+
  have t0: "0 \<le> ?t" by simp
  have t1: "?t \<le> 1" using assms by (simp add: field_simps)
  have "\<bar>?t\<bar> \<le> 10 ^ 301" using t0 t1 by simp
  from to_double_error [OF this] obtain q where
    q: "to_double ?t = Some q" "\<bar>q - ?t\<bar> \<le> \<bar>?t\<bar> * ?u + ?v"
    by blast
  have "\<bar>?t\<bar> * ?u \<le> 1 * ?u" using t0 t1 u0 by (intro mult_right_mono) simp_all
  with q(2) have qe: "\<bar>q - ?t\<bar> \<le> ?u + ?v" by simp
  have uh: "?u \<le> 1 / 2" by (rule pow2_53_le)
  have vh: "?v \<le> ?u / 2" by (rule pow2_1075_le)
  have q2: "\<bar>q\<bar> \<le> 2" using qe t0 t1 uh vh by linarith
  then have "\<bar>q * 100\<bar> \<le> 10 ^ 301" by (simp add: abs_mult)
  from to_double_error [OF this] obtain x where
    x: "to_double (q * 100) = Some x" "\<bar>x - q * 100\<bar> \<le> \<bar>q * 100\<bar> * ?u + ?v"
    by blast
  have n0: "(of_nat n :: rat) \<noteq> 0" using assms(2) by simp
  have r: "js_mul (js_div (Some (of_nat c)) (of_nat n)) (Some 100) = Some x"
    using q(1) x(1) n0 by (simp add: js_mul_def js_div_def)
  have qa: "\<bar>q\<bar> \<le> 1 + (?u + ?v)" using qe t0 t1 by linarith
  have "\<bar>q * 100\<bar> * ?u = 100 * (\<bar>q\<bar> * ?u)" by (simp add: abs_mult)
  also have "\<dots> \<le> 100 * (2 * ?u)"
    using q2 u0 by (intro mult_left_mono mult_right_mono) simp_all
  finally have xe: "\<bar>x - q * 100\<bar> \<le> 200 * ?u + ?v" using x(2) by linarith
  have "\<bar>x - ?t * 100\<bar> = \<bar>(x - q * 100) + 100 * (q - ?t)\<bar>"
    by (simp add: algebra_simps)
  also have "\<dots> \<le> \<bar>x - q * 100\<bar> + \<bar>100 * (q - ?t)\<bar>" by (rule abs_triangle_ineq)
  also have "\<dots> = \<bar>x - q * 100\<bar> + 100 * \<bar>q - ?t\<bar>" unfolding abs_mult by simp
  also have "\<dots> \<le> (200 * ?u + ?v) + 100 * (?u + ?v)"
    using xe qe by (intro add_mono mult_left_mono) simp_all
  also have "\<dots> = 300 * ?u + 101 * ?v" by simp
  also have "\<dots> \<le> 512 * ?u" using vh u0 by linarith
  also have "\<dots> = pow2 (- 44)"
  proof -
    have "pow2 (- 44) = pow2 (- 53) * pow2 9" by (simp flip: pow2_add)
    also have "pow2 9 = 512" by (simp add: pow2_def)
    finally show ?thesis by simp
  qed
  finally show ?thesis using r by blast
qed

text \<open>
  Evaluating one operation: it is enough to round the exact result.
\<close>

lemma js_add_value:
  assumes "round_finite (x + y) = r" and "\<bar>x + y\<bar> \<le> 10 ^ 301"
  shows "js_add (Some x) (Some y) = Some r"
  using to_double_finite [OF assms(2)] assms(1) by (simp add: js_add_def)

lemma js_mul_value:
  assumes "round_finite (x * y) = r" and "\<bar>x * y\<bar> \<le> 10 ^ 301"
  shows "js_mul (Some x) (Some y) = Some r"
  using to_double_finite [OF assms(2)] assms(1) by (simp add: js_mul_def)

lemma js_div_value:
  assumes "round_finite (x / y) = r" and "\<bar>x / y\<bar> \<le> 10 ^ 301" and "y \<noteq> 0"
  shows "js_div (Some x) y = Some r"
  using to_double_finite [OF assms(2)] assms(1,3) by (simp add: js_div_def)

text \<open>
  Two values of the score: 3 of 5 gives exactly 60; 11 of 20 gives the double next
  above 55, printed as 55.00000000000001.
\<close>

lemma js_score_examples:
  "js_mul (js_div (Some 3) 5) (Some 100) = Some 60
   \<and> js_mul (js_div (Some 11) 20) (Some 100) = Some (55 + 1 / 2 ^ 47)"
proof -
  have a: "js_div (Some 3) 5 = Some (5404319552844595 / 2 ^ 53)"
    by (rule js_div_value, code_simp, simp, simp)
  have b: "js_mul (Some (5404319552844595 / 2 ^ 53)) (Some 100) = Some 60"
    by (rule js_mul_value, code_simp, simp)
  have c: "js_div (Some 11) 20 = Some (2476979795053773 / 2 ^ 52)"
    by (rule js_div_value, code_simp, simp, simp)
  have d: "js_mul (Some (2476979795053773 / 2 ^ 52)) (Some 100) = Some (55 + 1 / 2 ^ 47)"
    by (rule js_mul_value, code_simp, simp)
  show ?thesis
    by (simp only: a b c d)
qed

lemma js_score_zero: "n \<noteq> 0 \<Longrightarrow> js_mul (js_div (Some 0) n) (Some 100) = Some 0"
  by (simp add: js_mul_def js_div_def to_double_def round_finite_def pow2_def)


section \<open>Theorems: streak\<close>

lemma yesterday_localDay:
  "localDay tz (setDate tz now (getDate tz now - 1)) = localDay tz now - 1"
  by (simp add: setDate_def localDay_def msPerDay_def algebra_simps)

text \<open>
  C1.  For a stored profile \<open>p\<close> with a \<open>lastActivityDate\<close> \<open>d\<close>, the streak update
  run after a history-record save does the following.  If today is the calendar day of
  \<open>d\<close>, profile and store are unchanged.  If \<open>d\<close> is exactly one calendar day
  before today, the streak becomes the old streak (0 when absent) plus 1.  Otherwise
  the streak becomes 1.  In the two changing cases the in-memory \<open>lastActivityDate\<close>
  is today's \<open>Date\<close> and the stored one is the server timestamp of the write.
\<close>

theorem streak_rule:
  assumes "db uid = Some p" and "lastActivityDate p = Some d"
  shows "updateUserStreak tz now srv uid db =
     (if localDay tz d = localDay tz now then (p, db)
      else if localDay tz d = localDay tz now - 1 then
        (p\<lparr>streak := Some (streak_or_zero p + 1), lastActivityDate := Some now\<rparr>,
         db(uid \<mapsto> p\<lparr>streak := Some (streak_or_zero p + 1), lastActivityDate := Some srv\<rparr>))
      else
        (p\<lparr>streak := Some 1, lastActivityDate := Some now\<rparr>,
         db(uid \<mapsto> p\<lparr>streak := Some 1, lastActivityDate := Some srv\<rparr>)))"
  using assms
  by (simp add: updateUserStreak_def Let_def toDateString_def yesterday_localDay)

text \<open>
  The scenario of the specification: last activity yesterday (2026-11-01, 20:00) with
  streak 4, a session today (2026-11-02, 10:00) gives streak 5.
\<close>

theorem streak_rule_witness:
  "updateUserStreak 0 1793613600000 1793613600250 ''u''
     [''u'' \<mapsto> \<lparr>userId = ''u'', streak = Some 4, lastActivityDate = Some 1793563200000\<rparr>]
   = (\<lparr>userId = ''u'', streak = Some 5, lastActivityDate = Some 1793613600000\<rparr>,
      [''u'' \<mapsto> \<lparr>userId = ''u'', streak = Some 5, lastActivityDate = Some 1793613600250\<rparr>])"
  using streak_rule [of "[''u'' \<mapsto> \<lparr>userId = ''u'', streak = Some 4,
                           lastActivityDate = Some 1793563200000\<rparr>]"
                        "''u''"
                        "\<lparr>userId = ''u'', streak = Some 4, lastActivityDate = Some 1793563200000\<rparr>"
                        1793563200000 0 1793613600000 1793613600250]
  by (simp add: localDay_def msPerDay_def streak_or_zero_def)

text \<open>
  C10, as stated, fails when the client clock stands on the calendar day of the epoch:
  the missing date is replaced by \<open>new Date(0)\<close>, which is then "the same day", and
  nothing is written (first two conjuncts: no profile document, clock at 1970-01-01
  01:00).  On the day after the epoch the missing date counts as "yesterday" and a
  stored streak 4 becomes 5 (last conjunct).
\<close>

theorem first_activity_counterexample:
  "streak (fst (updateUserStreak 0 3600000 3600000 ''u'' Map.empty)) = Some 0
   \<and> lastActivityDate (fst (updateUserStreak 0 3600000 3600000 ''u'' Map.empty)) = None
   \<and> snd (updateUserStreak 0 3600000 3600000 ''u'' Map.empty) ''u''
       = Some \<lparr>userId = ''u'', streak = None, lastActivityDate = None\<rparr>
   \<and> streak (fst (updateUserStreak 0 90000000 90000000 ''u''
         [''u'' \<mapsto> \<lparr>userId = ''u'', streak = Some 4, lastActivityDate = None\<rparr>])) = Some 5"
  by (simp add: updateUserStreak_def Let_def toDateString_def localDay_def msPerDay_def
      setDate_def streak_or_zero_def)

text \<open>
  C10, amended.  For a user without a profile document, or with a profile whose
  \<open>lastActivityDate\<close> is absent, the update sets the streak to 1, the in-memory
  \<open>lastActivityDate\<close> to today and the stored one to the server timestamp, provided
  today is not the calendar day of the epoch and, if today is the day after the epoch,
  the stored streak is absent or 0.
\<close>

theorem first_activity_streak:
  assumes "db uid = None \<or> (\<exists>p. db uid = Some p \<and> lastActivityDate p = None)"
    and "localDay tz now \<noteq> localDay tz 0"
    and "localDay tz now = localDay tz 0 + 1 \<longrightarrow> (\<forall>p. db uid = Some p \<longrightarrow> streak_or_zero p = 0)"
  shows "streak (fst (updateUserStreak tz now srv uid db)) = Some 1
     \<and> lastActivityDate (fst (updateUserStreak tz now srv uid db)) = Some now
     \<and> (\<exists>d. snd (updateUserStreak tz now srv uid db) uid = Some d
            \<and> streak d = Some 1 \<and> lastActivityDate d = Some srv)"
proof -
  from assms(1) show ?thesis
  proof
    assume "db uid = None"
    with assms(2) show ?thesis
      by (simp add: updateUserStreak_def Let_def toDateString_def yesterday_localDay
          streak_or_zero_def)
  next
    assume "\<exists>p. db uid = Some p \<and> lastActivityDate p = None"
    then obtain p where p: "db uid = Some p" "lastActivityDate p = None" by blast
    with assms(2,3) show ?thesis
      by (auto simp: updateUserStreak_def Let_def toDateString_def yesterday_localDay)
  qed
qed

theorem first_activity_streak_witness:
  "streak (fst (updateUserStreak 0 1793613600000 1793613600250 ''u'' Map.empty)) = Some 1
   \<and> lastActivityDate (fst (updateUserStreak 0 1793613600000 1793613600250 ''u'' Map.empty))
       = Some 1793613600000
   \<and> (\<exists>d. snd (updateUserStreak 0 1793613600000 1793613600250 ''u'' Map.empty) ''u'' = Some d
          \<and> streak d = Some 1 \<and> lastActivityDate d = Some 1793613600250)"
  using first_activity_streak [of Map.empty "''u''" 0 1793613600000 1793613600250]
  by (simp add: localDay_def msPerDay_def)


section \<open>Theorems: badge rules\<close>

lemma set_add_if: "set (add_if c b e) = (if c then insert b (set e) else set e)"
  by (auto simp: add_if_def)

lemma add_if_mono:
  assumes "b \<notin> X \<Longrightarrow> c \<Longrightarrow> c'" and "set e - X \<subseteq> set e'"
  shows "set (add_if c b e) - X \<subseteq> set (add_if c' b e')"
  using assms by (auto simp: set_add_if)

lemma count_mono:
  assumes "mset H \<subseteq># mset H'"
  shows "length (filter P H) \<le> length (filter P H')"
proof -
  have "filter_mset P (mset H) \<subseteq># filter_mset P (mset H')"
    using assms by (rule multiset_filter_mono)
  then have "size (filter_mset P (mset H)) \<le> size (filter_mset P (mset H'))"
    by (rule size_mset_mono)
  then show ?thesis by (simp flip: mset_filter)
qed

lemma count_ge_mono:
  "mset H \<subseteq># mset H' \<Longrightarrow> n \<le> length (filter P H) \<Longrightarrow> n \<le> length (filter P H')"
  using count_mono [of H H' P] by linarith

lemma count_pos_mono:
  "mset H \<subseteq># mset H' \<Longrightarrow> 0 < length (filter P H) \<Longrightarrow> 0 < length (filter P H')"
  using count_mono [of H H' P] by linarith

lemma mset_sub_set: "mset H \<subseteq># mset H' \<Longrightarrow> set H \<subseteq> set H'"
  using set_mset_mono by fastforce

lemma filter_sub_mono: "mset H \<subseteq># mset H' \<Longrightarrow> mset (filter P H) \<subseteq># mset (filter P H')"
  by (simp add: multiset_filter_mono)

lemma ex_mono: "mset H \<subseteq># mset H' \<Longrightarrow> list_ex P H \<Longrightarrow> list_ex P H'"
  using mset_sub_set [of H H'] by (auto simp: list_ex_iff)

lemma all_types_mono:
  "mset H \<subseteq># mset H' \<Longrightarrow> list_all (\<lambda>t. t \<in> set (map htype H)) ts
     \<Longrightarrow> list_all (\<lambda>t. t \<in> set (map htype H')) ts"
  using mset_sub_set [of H H'] by (auto simp: list_all_iff)

text \<open>
  Every rule but the weekend rule is monotone in the history (as a multiset), the
  streak and the revision count; the weekend rule is a parameter here.
\<close>

lemma badges_mono_gen:
  assumes H: "mset H \<subseteq># mset H'" and s: "s \<le> s'" and r: "r \<le> r'"
    and w: "''weekend-warrior'' \<notin> X \<Longrightarrow> weekend_rule tz now H \<Longrightarrow> weekend_rule tz now' H'"
  shows "set (checkAllBadges tz now H s r) - X \<subseteq> set (checkAllBadges tz now' H' s' r')"
proof -
  note A = filter_sub_mono [OF H, of "\<lambda>item. htype item = ''aptitude''"]
  note D = filter_sub_mono [OF A, of "\<lambda>h. quizType (dataReference h) = Some ''Diagnostic''"]
  show ?thesis
    unfolding checkAllBadges_def Let_def
    apply (intro add_if_mono)
    apply (erule all_types_mono [OF H])
    using r apply simp
    apply (erule ex_mono [OF H])
    apply (erule count_ge_mono [OF H])
    apply (erule count_ge_mono [OF H])
    apply (erule count_ge_mono [OF H])
    apply (erule count_ge_mono [OF H])
    apply (erule ex_mono [OF D])
    apply (erule count_pos_mono [OF A])
    apply (erule ex_mono [OF A])
    apply (erule ex_mono [OF A])
    apply (erule ex_mono [OF A])
    apply (erule ex_mono [OF A])
    apply (erule ex_mono [OF A])
    apply (erule count_ge_mono [OF H])
    apply (erule count_ge_mono [OF H])
    apply (erule (1) w)
    using s apply simp
    using s apply simp
    apply simp
    done
qed

lemma weekend_rule_same_head:
  assumes "localDay tz now' = localDay tz now"
    and "H \<noteq> [] \<longrightarrow> H' \<noteq> [] \<and> timestamp (hd H') = timestamp (hd H)"
    and "weekend_rule tz now H"
  shows "weekend_rule tz now' H'"
  using assms
  by (auto simp: weekend_rule_def Let_def getDay_def toDateString_def
      split: if_splits option.splits)

text \<open>
  C2, as stated, fails for the badge \<open>weekend-warrior\<close>.  On Saturday 2026-10-31 a
  history holding one aptitude record of that day earns it.  The same history
  extended by a newer record of the same kind no longer yields it: when the new first
  record is stamped just after midnight (Sunday) while the evaluation still runs on
  Saturday, and when both the new record and the evaluation are of Monday 2026-11-02.
\<close>

theorem badge_superset_counterexample:
  "''weekend-warrior'' \<in> set (checkAllBadges 0 1793491199000
       [\<lparr>htype = ''aptitude'', timestamp = Some 1793440800000, scoreRating = Some (NumScore 60),
         dataReference = \<lparr>quizType = Some ''Practice'', topic = Some ''Logical Reasoning'',
                           questionsAnswered = Some 5\<rparr>\<rparr>] 1 0)
   \<and> ''weekend-warrior'' \<notin> set (checkAllBadges 0 1793491199000
       [\<lparr>htype = ''aptitude'', timestamp = Some 1793491200100, scoreRating = Some (NumScore 60),
         dataReference = \<lparr>quizType = Some ''Practice'', topic = Some ''Logical Reasoning'',
                           questionsAnswered = Some 5\<rparr>\<rparr>,
        \<lparr>htype = ''aptitude'', timestamp = Some 1793440800000, scoreRating = Some (NumScore 60),
         dataReference = \<lparr>quizType = Some ''Practice'', topic = Some ''Logical Reasoning'',
                           questionsAnswered = Some 5\<rparr>\<rparr>] 1 0)
   \<and> ''weekend-warrior'' \<notin> set (checkAllBadges 0 1793613600000
       [\<lparr>htype = ''aptitude'', timestamp = Some 1793613600000, scoreRating = Some (NumScore 60),
         dataReference = \<lparr>quizType = Some ''Practice'', topic = Some ''Logical Reasoning'',
                           questionsAnswered = Some 5\<rparr>\<rparr>,
        \<lparr>htype = ''aptitude'', timestamp = Some 1793440800000, scoreRating = Some (NumScore 60),
         dataReference = \<lparr>quizType = Some ''Practice'', topic = Some ''Logical Reasoning'',
                           questionsAnswered = Some 5\<rparr>\<rparr>] 2 0)"
  by code_simp

text \<open>
  C2, amended.  Let the history \<open>H'\<close> hold every record of \<open>H\<close> (with
  multiplicity), and let streak and revision count be the same or greater.  Then every
  badge returned on \<open>H\<close> other than \<open>weekend-warrior\<close> is returned on \<open>H'\<close>,
  whatever the two evaluation times are.  \<open>weekend-warrior\<close> is kept as well when
  both evaluations run on the same calendar day and the first (most recent) record of
  the history carries the same timestamp.
\<close>

theorem badge_superset_except_weekend:
  assumes "mset H \<subseteq># mset H'" and "s \<le> s'" and "r \<le> r'"
  shows "set (checkAllBadges tz now H s r) - {''weekend-warrior''}
           \<subseteq> set (checkAllBadges tz now' H' s' r')
     \<and> (localDay tz now' = localDay tz now
          \<and> (H \<noteq> [] \<longrightarrow> H' \<noteq> [] \<and> timestamp (hd H') = timestamp (hd H))
        \<longrightarrow> set (checkAllBadges tz now H s r) \<subseteq> set (checkAllBadges tz now' H' s' r'))"
proof (intro conjI impI)
  show "set (checkAllBadges tz now H s r) - {''weekend-warrior''}
           \<subseteq> set (checkAllBadges tz now' H' s' r')"
    by (rule badges_mono_gen [OF assms]) simp
next
  assume a: "localDay tz now' = localDay tz now
          \<and> (H \<noteq> [] \<longrightarrow> H' \<noteq> [] \<and> timestamp (hd H') = timestamp (hd H))"
  have "set (checkAllBadges tz now H s r) - {} \<subseteq> set (checkAllBadges tz now' H' s' r')"
    by (rule badges_mono_gen [OF assms]) (use a in \<open>blast intro: weekend_rule_same_head\<close>)
  then show "set (checkAllBadges tz now H s r) \<subseteq> set (checkAllBadges tz now' H' s' r')"
    by simp
qed

text \<open>
  An instance: on Saturday 2026-10-31 a history of one aptitude record of that day is
  extended by an older technical record, and the streak grows from 7 to 8.
\<close>

theorem badge_superset_except_weekend_witness:
  "set (checkAllBadges 0 1793440800000
       [\<lparr>htype = ''aptitude'', timestamp = Some 1793440800000, scoreRating = Some (NumScore 60),
         dataReference = \<lparr>quizType = Some ''Practice'', topic = Some ''Logical Reasoning'',
                           questionsAnswered = Some 5\<rparr>\<rparr>] 7 0)
     \<subseteq> set (checkAllBadges 0 1793440800000
       [\<lparr>htype = ''aptitude'', timestamp = Some 1793440800000, scoreRating = Some (NumScore 60),
         dataReference = \<lparr>quizType = Some ''Practice'', topic = Some ''Logical Reasoning'',
                           questionsAnswered = Some 5\<rparr>\<rparr>,
        \<lparr>htype = ''technical'', timestamp = Some 1793300000000, scoreRating = None,
         dataReference = \<lparr>quizType = None, topic = None, questionsAnswered = Some 6\<rparr>\<rparr>] 8 0)
   \<and> ''weekend-warrior'' \<in> set (checkAllBadges 0 1793440800000
       [\<lparr>htype = ''aptitude'', timestamp = Some 1793440800000, scoreRating = Some (NumScore 60),
         dataReference = \<lparr>quizType = Some ''Practice'', topic = Some ''Logical Reasoning'',
                           questionsAnswered = Some 5\<rparr>\<rparr>] 7 0)"
proof -
  have e: "''weekend-warrior'' \<in> set (checkAllBadges 0 1793440800000
       [\<lparr>htype = ''aptitude'', timestamp = Some 1793440800000, scoreRating = Some (NumScore 60),
         dataReference = \<lparr>quizType = Some ''Practice'', topic = Some ''Logical Reasoning'',
                           questionsAnswered = Some 5\<rparr>\<rparr>] 7 0)"
    by code_simp
  show ?thesis
    using e badge_superset_except_weekend [where tz = 0 and now = 1793440800000
        and now' = 1793440800000 and s = 7 and s' = 8 and r = 0 and r' = 0
        and H = "[\<lparr>htype = ''aptitude'', timestamp = Some 1793440800000,
                   scoreRating = Some (NumScore 60),
                   dataReference = \<lparr>quizType = Some ''Practice'',
                     topic = Some ''Logical Reasoning'', questionsAnswered = Some 5\<rparr>\<rparr>]"
        and H' = "[\<lparr>htype = ''aptitude'', timestamp = Some 1793440800000,
                   scoreRating = Some (NumScore 60),
                   dataReference = \<lparr>quizType = Some ''Practice'',
                     topic = Some ''Logical Reasoning'', questionsAnswered = Some 5\<rparr>\<rparr>,
                  \<lparr>htype = ''technical'', timestamp = Some 1793300000000, scoreRating = None,
                   dataReference = \<lparr>quizType = None, topic = None,
                     questionsAnswered = Some 6\<rparr>\<rparr>]"]
    by simp
qed


section \<open>Theorems: goals\<close>

lemma deactivate_keys: "map fst (deactivate ids db) = map fst db"
  by (induction db) (auto simp: deactivate_def)

lemma filter_deactivate:
  assumes "\<forall>(i, g) \<in> set db. g_userId g = u \<and> isActive g \<longrightarrow> i \<in> set ids"
  shows "filter (\<lambda>(i, g). g_userId g = u \<and> isActive g) (deactivate ids db) = []"
  using assms by (auto simp: deactivate_def filter_empty_conv split: if_splits)

lemma deactivate_mem:
  assumes "(i, g) \<in> set db"
  shows "(if i \<in> set ids then (i, g\<lparr>isActive := False\<rparr>) else (i, g)) \<in> set (deactivate ids db)"
proof -
  have "(\<lambda>(i, g). if i \<in> set ids then (i, g\<lparr>isActive := False\<rparr>) else (i, g)) (i, g)
          \<in> set (deactivate ids db)"
    unfolding deactivate_def set_map using assms by (rule imageI)
  then show ?thesis by simp
qed

lemma snapshot_ids:
  assumes "distinct (map fst db)" and "(i, g) \<in> set db"
  shows "i \<in> set (map fst (filter (\<lambda>(i, g). P g) db)) \<longleftrightarrow> P g"
proof
  assume "i \<in> set (map fst (filter (\<lambda>(i, g). P g) db))"
  then obtain g' where g': "(i, g') \<in> set db" "P g'" by auto
  with assms have "g' = g" by (meson eq_key_imp_eq_value)
  with g' show "P g" by simp
next
  assume "P g"
  with assms(2) show "i \<in> set (map fst (filter (\<lambda>(i, g). P g) db))" by force
qed

text \<open>
  C4.  Document ids are unique in the collection and the generated id is new.  After
  \<open>setUserGoal\<close> with a goal marked active, the active goals of that user are
  exactly the new document; the collection holds every earlier document id followed
  by the new one (nothing is deleted); and every earlier document is unchanged, except
  that the previously active goals of that user have \<open>isActive = false\<close>.
\<close>

theorem setUserGoal_one_active:
  assumes "distinct (map fst db)" and "newId \<notin> set (map fst db)" and "isActive goal"
  shows "filter (\<lambda>(i, g). g_userId g = g_userId goal \<and> isActive g) (setUserGoal newId goal db)
           = [(newId, goal)]
     \<and> map fst (setUserGoal newId goal db) = map fst db @ [newId]
     \<and> (\<forall>(i, g) \<in> set db.
           (i, if g_userId g = g_userId goal \<and> isActive g then g\<lparr>isActive := False\<rparr> else g)
             \<in> set (setUserGoal newId goal db))"
proof -
  let ?P = "\<lambda>g. g_userId g = g_userId goal \<and> isActive g"
  let ?ids = "map fst (filter (\<lambda>(i, g). ?P g) db)"
  have s: "setUserGoal newId goal db = deactivate ?ids db @ [(newId, goal)]"
    using assms(2) by (simp add: setUserGoal_def set_doc_def deactivate_keys)
  have f: "filter (\<lambda>(i, g). ?P g) (deactivate ?ids db) = []"
    by (rule filter_deactivate) force
  have m: "(i, if ?P g then g\<lparr>isActive := False\<rparr> else g) \<in> set (deactivate ?ids db)"
    if "(i, g) \<in> set db" for i g
  proof -
    have "i \<in> set ?ids \<longleftrightarrow> ?P g"
      by (rule snapshot_ids [OF assms(1) that])
    then show ?thesis
      using deactivate_mem [OF that, of ?ids] by (cases "?P g") auto
  qed
  show ?thesis
  proof (intro conjI)
    show "filter (\<lambda>(i, g). ?P g) (setUserGoal newId goal db) = [(newId, goal)]"
      using f assms(3) by (simp add: s)
    show "map fst (setUserGoal newId goal db) = map fst db @ [newId]"
      by (simp add: s deactivate_keys)
    show "\<forall>(i, g) \<in> set db.
           (i, if ?P g then g\<lparr>isActive := False\<rparr> else g) \<in> set (setUserGoal newId goal db)"
    proof clarify
      fix i g
      assume "(i, g) \<in> set db"
      then have "(i, if ?P g then g\<lparr>isActive := False\<rparr> else g) \<in> set (deactivate ?ids db)"
        by (rule m)
      then show "(i, if ?P g then g\<lparr>isActive := False\<rparr> else g)
                   \<in> set (setUserGoal newId goal db)"
        unfolding s by simp
    qed
  qed
qed


theorem setUserGoal_one_active_witness:
  "filter (\<lambda>(i, g). g_userId g = ''u'' \<and> isActive g)
     (setUserGoal ''n''
        \<lparr>g_userId = ''u'', g_topic = ''Logical Reasoning'', targetAccuracy = 80,
          initialAccuracy = 50, currentAccuracy = 50, startDate = 0, endDate = 100,
          isActive = True\<rparr>
        [(''a'', \<lparr>g_userId = ''u'', g_topic = ''Verbal Ability'', targetAccuracy = 70,
                  initialAccuracy = 40, currentAccuracy = 45, startDate = 0, endDate = 50,
                  isActive = True\<rparr>),
         (''b'', \<lparr>g_userId = ''v'', g_topic = ''Verbal Ability'', targetAccuracy = 70,
                  initialAccuracy = 40, currentAccuracy = 45, startDate = 0, endDate = 50,
                  isActive = True\<rparr>)])
   = [(''n'', \<lparr>g_userId = ''u'', g_topic = ''Logical Reasoning'', targetAccuracy = 80,
               initialAccuracy = 50, currentAccuracy = 50, startDate = 0, endDate = 100,
               isActive = True\<rparr>)]"
  using setUserGoal_one_active [of
      "[(''a'', \<lparr>g_userId = ''u'', g_topic = ''Verbal Ability'', targetAccuracy = 70,
                  initialAccuracy = 40, currentAccuracy = 45, startDate = 0, endDate = 50,
                  isActive = True\<rparr>),
         (''b'', \<lparr>g_userId = ''v'', g_topic = ''Verbal Ability'', targetAccuracy = 70,
                  initialAccuracy = 40, currentAccuracy = 45, startDate = 0, endDate = 50,
                  isActive = True\<rparr>)]"
      "''n''"
      "\<lparr>g_userId = ''u'', g_topic = ''Logical Reasoning'', targetAccuracy = 80,
          initialAccuracy = 50, currentAccuracy = 50, startDate = 0, endDate = 100,
          isActive = True\<rparr>"]
  by simp

lemma those_map_Some:
  assumes "\<forall>x \<in> set xs. f x \<noteq> None"
  shows "\<exists>ys. map f xs = map Some ys \<and> those (map f xs) = Some ys"
  using assms
proof (induction xs)
  case Nil
  then show ?case by simp
next
  case (Cons x xs)
  then obtain ys where ys: "map f xs = map Some ys" "those (map f xs) = Some ys" by auto
  from Cons.prems obtain y where y: "f x = Some y" by auto
  have "map f (x # xs) = map Some (y # ys) \<and> those (map f (x # xs)) = Some (y # ys)"
    using ys y by simp
  then show ?case by blast
qed

lemma desc_key_le:
  assumes "timestamp x = Some tx" and "timestamp y = Some ty" and "desc_key x \<le> desc_key y"
  shows "ty \<le> tx"
  using assms by (simp add: desc_key_def)

lemma take_sorted_recent:
  fixes k :: "'a \<Rightarrow> int"
  assumes "x \<in> set (take n (sort_key k xs))"
    and "y \<in># mset xs - mset (take n (sort_key k xs))"
  shows "k x \<le> k y"
proof -
  let ?s = "sort_key k xs"
  have "mset xs = mset (take n ?s) + mset (drop n ?s)"
    by (metis append_take_drop_id mset_append mset_sort)
  then have "y \<in> set (drop n ?s)" using assms(2) by simp
  moreover have "sorted (map k (take n ?s @ drop n ?s))" by simp
  ultimately show ?thesis
    using assms(1) unfolding map_append sorted_append by auto
qed

lemma score_bounded_iff:
  "(\<exists>r. score_number h = Some r \<and> \<bar>r\<bar> \<le> B)
     \<longleftrightarrow> (case score_number h of Some r \<Rightarrow> \<bar>r\<bar> \<le> B | None \<Rightarrow> False)"
  by (cases "score_number h") auto

text \<open>
  C7.  Let \<open>(i, goal)\<close> be the first active goal of the user, and let the records
  that the topic query returns carry numeric scores of magnitude at most \<open>B\<close>
  (100 for percentages; any bound up to \<open>10^298\<close>).  The query returns the most
  recent 5 aptitude records of the goal's topic: as many as there are, at most 5, all
  of them matching records, and no matching record left out is newer than a returned
  one.  The refreshed value \<open>a\<close> is the average of the returned scores as the code
  computes it in double arithmetic, a finite number within \<open>(B + 1) * 2^-44\<close> of
  their exact average.  \<open>getActiveGoal\<close> returns the goal; if the query returns
  nothing, or \<open>a\<close> equals the stored \<open>currentAccuracy\<close>, goal and collection
  are unchanged; otherwise the returned goal and the stored document carry \<open>a\<close> as
  \<open>currentAccuracy\<close>.
\<close>

theorem getActiveGoal_refresh:
  assumes "filter (\<lambda>(i, g). g_userId g = uid \<and> isActive g) db = (i, goal) # rest"
    and "\<forall>h \<in> set (topic_query (hdb uid) (g_topic goal)).
           \<exists>r. score_number h = Some r \<and> \<bar>r\<bar> \<le> B"
    and "B \<le> 10 ^ 298"
  shows "\<exists>scores a.
      map score_number (topic_query (hdb uid) (g_topic goal)) = map Some scores
    \<and> length scores = min 5 (length (filter (matches_topic (g_topic goal)) (hdb uid)))
    \<and> mset (topic_query (hdb uid) (g_topic goal))
         \<subseteq># mset (filter (matches_topic (g_topic goal)) (hdb uid))
    \<and> (\<forall>x \<in> set (topic_query (hdb uid) (g_topic goal)).
        \<forall>y \<in># mset (filter (matches_topic (g_topic goal)) (hdb uid))
                 - mset (topic_query (hdb uid) (g_topic goal)).
        \<forall>tx ty. timestamp x = Some tx \<longrightarrow> timestamp y = Some ty \<longrightarrow> ty \<le> tx)
    \<and> (scores \<noteq> [] \<longrightarrow>
          js_average scores = Some a
        \<and> \<bar>a - sum_list scores / of_nat (length scores)\<bar> \<le> (B + 1) * pow2 (- 44))
    \<and> getActiveGoal hdb db uid =
        Inr (if scores = [] \<or> a = currentAccuracy goal
             then (Some (i, goal), db)
             else (Some (i, goal\<lparr>currentAccuracy := a\<rparr>), merge_currentAccuracy i a db))"
proof -
  let ?recent = "topic_query (hdb uid) (g_topic goal)"
  let ?matching = "filter (matches_topic (g_topic goal)) (hdb uid)"
  have num: "\<forall>h \<in> set ?recent. score_number h \<noteq> None"
    using assms(2) by auto
  from those_map_Some [OF num] obtain scores where
    sc: "map score_number ?recent = map Some scores" "those (map score_number ?recent) = Some scores"
    by blast
  have len: "length scores = length ?recent"
    using sc(1) by (metis length_map)
  have l5: "length ?recent = min 5 (length ?matching)"
    by (simp add: topic_query_def min.commute)
  have sub: "mset ?recent \<subseteq># mset ?matching"
  proof -
    have "mset (take 5 (sort_key desc_key ?matching)) \<subseteq># mset (sort_key desc_key ?matching)"
      by (metis append_take_drop_id mset_append mset_subset_eq_add_left)
    then show ?thesis by (simp add: topic_query_def)
  qed
  have rec: "\<forall>x \<in> set ?recent. \<forall>y \<in># mset ?matching - mset ?recent.
        \<forall>tx ty. timestamp x = Some tx \<longrightarrow> timestamp y = Some ty \<longrightarrow> ty \<le> tx"
    unfolding topic_query_def
    using take_sorted_recent [of _ 5 desc_key ?matching] desc_key_le by blast
  have e: "?recent = [] \<longleftrightarrow> scores = []"
    using len by auto
  have bound: "\<forall>x \<in> set scores. \<bar>x\<bar> \<le> B"
  proof
    fix x assume "x \<in> set scores"
    then have "Some x \<in> set (map score_number ?recent)"
      unfolding sc(1) by simp
    then obtain h where "h \<in> set ?recent" "score_number h = Some x" by auto
    with assms(2) show "\<bar>x\<bar> \<le> B" by auto
  qed
  show ?thesis
  proof (cases "scores = []")
    case True
    then have "getActiveGoal hdb db uid = Inr (Some (i, goal), db)"
      using assms(1) e by (simp add: getActiveGoal_def getAverageAccuracyForTopic_def)
    with True sc(1) len l5 sub rec show ?thesis
      by (intro exI [of _ scores] exI [of _ 0]) simp
  next
    case False
    have "length scores \<le> 5" using len l5 by simp
    from js_average_error [OF False this bound assms(3)] obtain a where
      a: "js_average scores = Some a"
        "\<bar>a - sum_list scores / of_nat (length scores)\<bar> \<le> (B + 1) * pow2 (- 44)"
      by blast
    have "getActiveGoal hdb db uid =
        Inr (if a = currentAccuracy goal
             then (Some (i, goal), db)
             else (Some (i, goal\<lparr>currentAccuracy := a\<rparr>), merge_currentAccuracy i a db))"
      using assms(1) sc(2) e False a(1)
      by (simp add: getActiveGoal_def getAverageAccuracyForTopic_def)
    with False a sc(1) len l5 sub rec show ?thesis
      by (intro exI [of _ scores] exI [of _ a]) simp
  qed
qed

text \<open>
  Two instances.  Scores 28.000000000000004, 56.00000000000001 and 96, newest first,
  with the stored accuracy 60: the sums are rounded to 84.00000000000003 and 180, the
  average in double arithmetic is 60 (the exact average is not), and goal and store
  are unchanged.  Six records of the topic with scores 10, 60, 70, 80, 90, 100 from
  oldest to newest: the stored accuracy 40 is replaced by the average 80 of the five
  newest.  Both histories also hold a record of another topic.
\<close>

theorem getActiveGoal_refresh_witness:
  "getActiveGoal
     (\<lambda>u. if u = ''u'' then
          [\<lparr>htype = ''aptitude'', timestamp = Some 2000, scoreRating = Some (NumScore (56 + 1 / 2 ^ 47)),
            dataReference = \<lparr>quizType = Some ''Practice'', topic = Some ''Logical Reasoning'',
              questionsAnswered = Some 5\<rparr>\<rparr>,
           \<lparr>htype = ''aptitude'', timestamp = Some 7000, scoreRating = Some (NumScore (55)),
            dataReference = \<lparr>quizType = Some ''Practice'', topic = Some ''Verbal Ability'',
              questionsAnswered = Some 5\<rparr>\<rparr>,
           \<lparr>htype = ''aptitude'', timestamp = Some 1000, scoreRating = Some (NumScore (96)),
            dataReference = \<lparr>quizType = Some ''Practice'', topic = Some ''Logical Reasoning'',
              questionsAnswered = Some 5\<rparr>\<rparr>,
           \<lparr>htype = ''aptitude'', timestamp = Some 3000, scoreRating = Some (NumScore (28 + 1 / 2 ^ 48)),
            dataReference = \<lparr>quizType = Some ''Practice'', topic = Some ''Logical Reasoning'',
              questionsAnswered = Some 5\<rparr>\<rparr>]
        else [])
     [(''g1'', \<lparr>g_userId = ''u'', g_topic = ''Logical Reasoning'', targetAccuracy = 85,
         initialAccuracy = 40, currentAccuracy = 60, startDate = 0, endDate = 9000,
         isActive = True\<rparr>)]
     ''u''
   = Inr (Some (''g1'', \<lparr>g_userId = ''u'', g_topic = ''Logical Reasoning'', targetAccuracy = 85,
         initialAccuracy = 40, currentAccuracy = 60, startDate = 0, endDate = 9000,
         isActive = True\<rparr>),
          [(''g1'', \<lparr>g_userId = ''u'', g_topic = ''Logical Reasoning'', targetAccuracy = 85,
         initialAccuracy = 40, currentAccuracy = 60, startDate = 0, endDate = 9000,
         isActive = True\<rparr>)])
   \<and> getActiveGoal
     (\<lambda>u. if u = ''u'' then
          [\<lparr>htype = ''aptitude'', timestamp = Some 1000, scoreRating = Some (NumScore (10)),
            dataReference = \<lparr>quizType = Some ''Practice'', topic = Some ''Logical Reasoning'',
              questionsAnswered = Some 5\<rparr>\<rparr>,
           \<lparr>htype = ''aptitude'', timestamp = Some 6000, scoreRating = Some (NumScore (100)),
            dataReference = \<lparr>quizType = Some ''Practice'', topic = Some ''Logical Reasoning'',
              questionsAnswered = Some 5\<rparr>\<rparr>,
           \<lparr>htype = ''aptitude'', timestamp = Some 3000, scoreRating = Some (NumScore (70)),
            dataReference = \<lparr>quizType = Some ''Practice'', topic = Some ''Logical Reasoning'',
              questionsAnswered = Some 5\<rparr>\<rparr>,
           \<lparr>htype = ''aptitude'', timestamp = Some 7000, scoreRating = Some (NumScore (55)),
            dataReference = \<lparr>quizType = Some ''Practice'', topic = Some ''Verbal Ability'',
              questionsAnswered = Some 5\<rparr>\<rparr>,
           \<lparr>htype = ''aptitude'', timestamp = Some 2000, scoreRating = Some (NumScore (60)),
            dataReference = \<lparr>quizType = Some ''Practice'', topic = Some ''Logical Reasoning'',
              questionsAnswered = Some 5\<rparr>\<rparr>,
           \<lparr>htype = ''aptitude'', timestamp = Some 5000, scoreRating = Some (NumScore (90)),
            dataReference = \<lparr>quizType = Some ''Practice'', topic = Some ''Logical Reasoning'',
              questionsAnswered = Some 5\<rparr>\<rparr>,
           \<lparr>htype = ''aptitude'', timestamp = Some 4000, scoreRating = Some (NumScore (80)),
            dataReference = \<lparr>quizType = Some ''Practice'', topic = Some ''Logical Reasoning'',
              questionsAnswered = Some 5\<rparr>\<rparr>]
        else [])
     [(''g1'', \<lparr>g_userId = ''u'', g_topic = ''Logical Reasoning'', targetAccuracy = 85,
         initialAccuracy = 40, currentAccuracy = 40, startDate = 0, endDate = 9000,
         isActive = True\<rparr>)]
     ''u''
   = Inr (Some (''g1'', \<lparr>g_userId = ''u'', g_topic = ''Logical Reasoning'', targetAccuracy = 85,
         initialAccuracy = 40, currentAccuracy = 80, startDate = 0, endDate = 9000,
         isActive = True\<rparr>),
          [(''g1'', \<lparr>g_userId = ''u'', g_topic = ''Logical Reasoning'', targetAccuracy = 85,
         initialAccuracy = 40, currentAccuracy = 80, startDate = 0, endDate = 9000,
         isActive = True\<rparr>)])"
proof -
  let ?hdb1 = "(\<lambda>u. if u = ''u'' then
          [\<lparr>htype = ''aptitude'', timestamp = Some 2000, scoreRating = Some (NumScore (56 + 1 / 2 ^ 47)),
            dataReference = \<lparr>quizType = Some ''Practice'', topic = Some ''Logical Reasoning'',
              questionsAnswered = Some 5\<rparr>\<rparr>,
           \<lparr>htype = ''aptitude'', timestamp = Some 7000, scoreRating = Some (NumScore (55)),
            dataReference = \<lparr>quizType = Some ''Practice'', topic = Some ''Verbal Ability'',
              questionsAnswered = Some 5\<rparr>\<rparr>,
           \<lparr>htype = ''aptitude'', timestamp = Some 1000, scoreRating = Some (NumScore (96)),
            dataReference = \<lparr>quizType = Some ''Practice'', topic = Some ''Logical Reasoning'',
              questionsAnswered = Some 5\<rparr>\<rparr>,
           \<lparr>htype = ''aptitude'', timestamp = Some 3000, scoreRating = Some (NumScore (28 + 1 / 2 ^ 48)),
            dataReference = \<lparr>quizType = Some ''Practice'', topic = Some ''Logical Reasoning'',
              questionsAnswered = Some 5\<rparr>\<rparr>]
        else [])"
  let ?hdb2 = "(\<lambda>u. if u = ''u'' then
          [\<lparr>htype = ''aptitude'', timestamp = Some 1000, scoreRating = Some (NumScore (10)),
            dataReference = \<lparr>quizType = Some ''Practice'', topic = Some ''Logical Reasoning'',
              questionsAnswered = Some 5\<rparr>\<rparr>,
           \<lparr>htype = ''aptitude'', timestamp = Some 6000, scoreRating = Some (NumScore (100)),
            dataReference = \<lparr>quizType = Some ''Practice'', topic = Some ''Logical Reasoning'',
              questionsAnswered = Some 5\<rparr>\<rparr>,
           \<lparr>htype = ''aptitude'', timestamp = Some 3000, scoreRating = Some (NumScore (70)),
            dataReference = \<lparr>quizType = Some ''Practice'', topic = Some ''Logical Reasoning'',
              questionsAnswered = Some 5\<rparr>\<rparr>,
           \<lparr>htype = ''aptitude'', timestamp = Some 7000, scoreRating = Some (NumScore (55)),
            dataReference = \<lparr>quizType = Some ''Practice'', topic = Some ''Verbal Ability'',
              questionsAnswered = Some 5\<rparr>\<rparr>,
           \<lparr>htype = ''aptitude'', timestamp = Some 2000, scoreRating = Some (NumScore (60)),
            dataReference = \<lparr>quizType = Some ''Practice'', topic = Some ''Logical Reasoning'',
              questionsAnswered = Some 5\<rparr>\<rparr>,
           \<lparr>htype = ''aptitude'', timestamp = Some 5000, scoreRating = Some (NumScore (90)),
            dataReference = \<lparr>quizType = Some ''Practice'', topic = Some ''Logical Reasoning'',
              questionsAnswered = Some 5\<rparr>\<rparr>,
           \<lparr>htype = ''aptitude'', timestamp = Some 4000, scoreRating = Some (NumScore (80)),
            dataReference = \<lparr>quizType = Some ''Practice'', topic = Some ''Logical Reasoning'',
              questionsAnswered = Some 5\<rparr>\<rparr>]
        else [])"
  let ?goal1 = "\<lparr>g_userId = ''u'', g_topic = ''Logical Reasoning'', targetAccuracy = 85,
         initialAccuracy = 40, currentAccuracy = 60, startDate = 0, endDate = 9000,
         isActive = True\<rparr>"
  let ?goal2 = "\<lparr>g_userId = ''u'', g_topic = ''Logical Reasoning'', targetAccuracy = 85,
         initialAccuracy = 40, currentAccuracy = 40, startDate = 0, endDate = 9000,
         isActive = True\<rparr>"
  have q1: "topic_query (?hdb1 ''u'') (g_topic ?goal1) =
      [\<lparr>htype = ''aptitude'', timestamp = Some 3000, scoreRating = Some (NumScore (28 + 1 / 2 ^ 48)),
            dataReference = \<lparr>quizType = Some ''Practice'', topic = Some ''Logical Reasoning'',
              questionsAnswered = Some 5\<rparr>\<rparr>,
       \<lparr>htype = ''aptitude'', timestamp = Some 2000, scoreRating = Some (NumScore (56 + 1 / 2 ^ 47)),
            dataReference = \<lparr>quizType = Some ''Practice'', topic = Some ''Logical Reasoning'',
              questionsAnswered = Some 5\<rparr>\<rparr>,
       \<lparr>htype = ''aptitude'', timestamp = Some 1000, scoreRating = Some (NumScore (96)),
            dataReference = \<lparr>quizType = Some ''Practice'', topic = Some ''Logical Reasoning'',
              questionsAnswered = Some 5\<rparr>\<rparr>]"
    by code_simp
  have q2: "topic_query (?hdb2 ''u'') (g_topic ?goal2) =
      [\<lparr>htype = ''aptitude'', timestamp = Some 6000, scoreRating = Some (NumScore (100)),
            dataReference = \<lparr>quizType = Some ''Practice'', topic = Some ''Logical Reasoning'',
              questionsAnswered = Some 5\<rparr>\<rparr>,
       \<lparr>htype = ''aptitude'', timestamp = Some 5000, scoreRating = Some (NumScore (90)),
            dataReference = \<lparr>quizType = Some ''Practice'', topic = Some ''Logical Reasoning'',
              questionsAnswered = Some 5\<rparr>\<rparr>,
       \<lparr>htype = ''aptitude'', timestamp = Some 4000, scoreRating = Some (NumScore (80)),
            dataReference = \<lparr>quizType = Some ''Practice'', topic = Some ''Logical Reasoning'',
              questionsAnswered = Some 5\<rparr>\<rparr>,
       \<lparr>htype = ''aptitude'', timestamp = Some 3000, scoreRating = Some (NumScore (70)),
            dataReference = \<lparr>quizType = Some ''Practice'', topic = Some ''Logical Reasoning'',
              questionsAnswered = Some 5\<rparr>\<rparr>,
       \<lparr>htype = ''aptitude'', timestamp = Some 2000, scoreRating = Some (NumScore (60)),
            dataReference = \<lparr>quizType = Some ''Practice'', topic = Some ''Logical Reasoning'',
              questionsAnswered = Some 5\<rparr>\<rparr>]"
    by code_simp
  have f1: "filter (\<lambda>(i, g). g_userId g = ''u'' \<and> isActive g) [(''g1'', ?goal1)]
              = (''g1'', ?goal1) # []"
    by simp
  have f2: "filter (\<lambda>(i, g). g_userId g = ''u'' \<and> isActive g) [(''g1'', ?goal2)]
              = (''g1'', ?goal2) # []"
    by simp
  have b1: "\<forall>h \<in> set (topic_query (?hdb1 ''u'') (g_topic ?goal1)).
              \<exists>r. score_number h = Some r \<and> \<bar>r\<bar> \<le> 100"
    unfolding score_bounded_iff by code_simp
  have b2: "\<forall>h \<in> set (topic_query (?hdb2 ''u'') (g_topic ?goal2)).
              \<exists>r. score_number h = Some r \<and> \<bar>r\<bar> \<le> 100"
    unfolding score_bounded_iff by code_simp
  have B: "(100 :: rat) \<le> 10 ^ 298"
    by simp
  have s1: "js_add (Some 0) (Some (28 + 1 / 2 ^ 48)) = Some (28 + 1 / 2 ^ 48)"
    by (rule js_add_value, code_simp, simp)
  have s2: "js_add (Some (28 + 1 / 2 ^ 48)) (Some (56 + 1 / 2 ^ 47)) = Some (84 + 1 / 2 ^ 46)"
    by (rule js_add_value, code_simp, simp)
  have s3: "js_add (Some (84 + 1 / 2 ^ 46)) (Some 96) = Some 180"
    by (rule js_add_value, code_simp, simp)
  have s4: "js_div (Some 180) 3 = Some 60"
    by (rule js_div_value, code_simp, simp, simp)
  have l3: "of_nat (length [28 + 1 / 2 ^ 48, 56 + 1 / 2 ^ 47, 96 :: rat]) = (3 :: rat)"
    by simp
  have av1: "js_average [28 + 1 / 2 ^ 48, 56 + 1 / 2 ^ 47, 96] = Some 60"
    by (simp only: js_average_def l3 foldl.simps s1 s2 s3 s4)
  have t1: "js_add (Some 0) (Some 100) = Some 100"
    by (rule js_add_value, code_simp, simp)
  have t2: "js_add (Some 100) (Some 90) = Some 190"
    by (rule js_add_value, code_simp, simp)
  have t3: "js_add (Some 190) (Some 80) = Some 270"
    by (rule js_add_value, code_simp, simp)
  have t4: "js_add (Some 270) (Some 70) = Some 340"
    by (rule js_add_value, code_simp, simp)
  have t5: "js_add (Some 340) (Some 60) = Some 400"
    by (rule js_add_value, code_simp, simp)
  have t6: "js_div (Some 400) 5 = Some 80"
    by (rule js_div_value, code_simp, simp, simp)
  have l5: "of_nat (length [100, 90, 80, 70, 60 :: rat]) = (5 :: rat)"
    by simp
  have av2: "js_average [100, 90, 80, 70, 60] = Some 80"
    by (simp only: js_average_def l5 foldl.simps t1 t2 t3 t4 t5 t6)
  have "\<exists>scores a. map score_number (topic_query (?hdb1 ''u'') (g_topic ?goal1)) = map Some scores
      \<and> (scores \<noteq> [] \<longrightarrow>
            js_average scores = Some a
          \<and> \<bar>a - sum_list scores / of_nat (length scores)\<bar> \<le> (100 + 1) * pow2 (- 44))
      \<and> getActiveGoal ?hdb1 [(''g1'', ?goal1)] ''u'' =
        Inr (if scores = [] \<or> a = currentAccuracy ?goal1
             then (Some (''g1'', ?goal1), [(''g1'', ?goal1)])
             else (Some (''g1'', ?goal1\<lparr>currentAccuracy := a\<rparr>),
                   merge_currentAccuracy ''g1'' a [(''g1'', ?goal1)]))"
    (is "\<exists>scores a. ?S scores \<and> ?A scores a \<and> ?G scores a")
    using getActiveGoal_refresh [where hdb = ?hdb1 and uid = "''u''" and db = "[(''g1'', ?goal1)]"
        and i = "''g1''" and goal = ?goal1 and rest = "[]" and B = 100, OF f1 b1 B]
    by (elim exE conjE) (intro exI conjI)
  then obtain scores a where s: "?S scores" and a: "?A scores a" and g: "?G scores a"
    by (elim exE conjE)
  from s have "map Some scores = map Some [28 + 1 / 2 ^ 48, 56 + 1 / 2 ^ 47, 96]"
    unfolding q1 by (simp add: score_number_def)
  then have "scores = [28 + 1 / 2 ^ 48, 56 + 1 / 2 ^ 47, 96]"
    by (simp only: inj_map_eq_map [OF inj_Some])
  with a av1 have "scores \<noteq> [] \<and> a = 60" by simp
  with g have one: "getActiveGoal ?hdb1 [(''g1'', ?goal1)] ''u''
      = Inr (Some (''g1'', ?goal1), [(''g1'', ?goal1)])"
    by simp
  have "\<exists>scores a. map score_number (topic_query (?hdb2 ''u'') (g_topic ?goal2)) = map Some scores
      \<and> (scores \<noteq> [] \<longrightarrow>
            js_average scores = Some a
          \<and> \<bar>a - sum_list scores / of_nat (length scores)\<bar> \<le> (100 + 1) * pow2 (- 44))
      \<and> getActiveGoal ?hdb2 [(''g1'', ?goal2)] ''u'' =
        Inr (if scores = [] \<or> a = currentAccuracy ?goal2
             then (Some (''g1'', ?goal2), [(''g1'', ?goal2)])
             else (Some (''g1'', ?goal2\<lparr>currentAccuracy := a\<rparr>),
                   merge_currentAccuracy ''g1'' a [(''g1'', ?goal2)]))"
    (is "\<exists>scores a. ?S scores \<and> ?A scores a \<and> ?G scores a")
    using getActiveGoal_refresh [where hdb = ?hdb2 and uid = "''u''" and db = "[(''g1'', ?goal2)]"
        and i = "''g1''" and goal = ?goal2 and rest = "[]" and B = 100, OF f2 b2 B]
    by (elim exE conjE) (intro exI conjI)
  then obtain scores a where s: "?S scores" and a: "?A scores a" and g: "?G scores a"
    by (elim exE conjE)
  from s have "map Some scores = map Some [100, 90, 80, 70, 60]"
    unfolding q2 by (simp add: score_number_def)
  then have "scores = [100, 90, 80, 70, 60]"
    by (simp only: inj_map_eq_map [OF inj_Some])
  with a av2 have "scores \<noteq> [] \<and> a = 80" by simp
  with g have two: "getActiveGoal ?hdb2 [(''g1'', ?goal2)] ''u''
      = Inr (Some (''g1'', ?goal2\<lparr>currentAccuracy := 80\<rparr>),
             merge_currentAccuracy ''g1'' 80 [(''g1'', ?goal2)])"
    by simp
  from one two show ?thesis
    by (simp add: merge_currentAccuracy_def)
qed


section \<open>Theorems: aptitude quiz\<close>

lemma count_correct_card:
  "count_correct i qs ans c =
     c + card {j. j < length qs \<and> js_get ans (i + j) = Some (correctAnswer (qs ! j))}"
proof (induction qs arbitrary: i c)
  case Nil
  then show ?case by simp
next
  case (Cons q qs)
  let ?S = "{j. j < length (q # qs) \<and> js_get ans (i + j) = Some (correctAnswer ((q # qs) ! j))}"
  let ?T = "{j. j < length qs \<and> js_get ans (Suc i + j) = Some (correctAnswer (qs ! j))}"
  have fin: "finite ?T" by simp
  have S: "?S = (if js_get ans i = Some (correctAnswer q) then {0} else {}) \<union> Suc ` ?T"
  proof (rule set_eqI)
    fix j
    show "j \<in> ?S \<longleftrightarrow> j \<in> (if js_get ans i = Some (correctAnswer q) then {0} else {}) \<union> Suc ` ?T"
      by (cases j) (auto simp: image_iff)
  qed
  have "card ?S = (if js_get ans i = Some (correctAnswer q) then 1 else 0) + card ?T"
  proof -
    have "card (Suc ` ?T) = card ?T" by (simp add: card_image)
    moreover have "0 \<notin> Suc ` ?T" by auto
    ultimately show ?thesis unfolding S using fin by (simp split: if_splits)
  qed
  then show ?case using Cons.IH [of "Suc i"] by (auto simp: eq_commute)
qed


lemma matching_indices_card: "card (matching_indices qs finalAnswers) \<le> length qs"
proof -
  have "matching_indices qs finalAnswers \<subseteq> {..<length qs}"
    by (auto simp: matching_indices_def)
  then have "card (matching_indices qs finalAnswers) \<le> card {..<length qs}"
    by (intro card_mono) simp_all
  then show ?thesis by simp
qed

text \<open>
  C6.  For a quiz of \<open>n \<ge> 1\<close> questions, \<open>calculateResult\<close> gives
  \<open>correctAnswers\<close> equal to the number of indices at which the user's answer is
  the question's correct answer, \<open>incorrectAnswers = n - correctAnswers\<close>,
  \<open>total = n\<close>, and as \<open>score\<close> the value of
  \<open>(correctAnswers / n) * 100\<close> in double arithmetic: a finite number within
  \<open>2^-44\<close> of the exact value of that expression.
\<close>

theorem calculateResult_score:
  assumes "length (ap_questions s) \<ge> 1"
  shows "correctAnswers (fst (calculateResult uid finalAnswers finalTimes s))
           = card (matching_indices (ap_questions s) finalAnswers)
     \<and> incorrectAnswers (fst (calculateResult uid finalAnswers finalTimes s))
           = int (length (ap_questions s))
             - int (correctAnswers (fst (calculateResult uid finalAnswers finalTimes s)))
     \<and> total (fst (calculateResult uid finalAnswers finalTimes s)) = length (ap_questions s)
     \<and> score (fst (calculateResult uid finalAnswers finalTimes s))
           = js_mul (js_div
                (Some (of_nat (correctAnswers (fst (calculateResult uid finalAnswers finalTimes s)))))
                (of_nat (length (ap_questions s)))) (Some 100)
     \<and> (\<exists>x. score (fst (calculateResult uid finalAnswers finalTimes s)) = Some x
            \<and> \<bar>x - of_nat (correctAnswers (fst (calculateResult uid finalAnswers finalTimes s)))
                     / of_nat (length (ap_questions s)) * 100\<bar> \<le> pow2 (- 44))"
proof -
  let ?c = "card (matching_indices (ap_questions s) finalAnswers)"
  let ?n = "length (ap_questions s)"
  have c: "count_correct 0 (ap_questions s) finalAnswers 0 = ?c"
    by (simp add: matching_indices_def count_correct_card [of 0, simplified])
  have n: "0 < ?n" using assms by linarith
  have ne: "ap_questions s \<noteq> []" using n by auto
  from js_score_error [OF matching_indices_card n, of finalAnswers]
  obtain x where x: "js_mul (js_div (Some (of_nat ?c)) (of_nat ?n)) (Some 100) = Some x"
    "\<bar>x - of_nat ?c / of_nat ?n * 100\<bar> \<le> pow2 (- 44)"
    by blast
  show ?thesis
    using x ne by (simp add: calculateResult_def Let_def c)
qed

text \<open>
  The scenario of the specification: five questions, three answered correctly (one
  wrong, one unanswered) give score 60, \<open>correctAnswers = 3\<close>,
  \<open>incorrectAnswers = 2\<close>.
\<close>

theorem calculateResult_score_witness:
  "card (matching_indices
      [\<lparr>question = ''q1'', options = [''a'', ''b''], correctAnswer = ''a'',
          explanation = ''e'', subTopic = ''t''\<rparr>,
        \<lparr>question = ''q2'', options = [''a'', ''b''], correctAnswer = ''b'',
          explanation = ''e'', subTopic = ''t''\<rparr>,
        \<lparr>question = ''q3'', options = [''a'', ''b''], correctAnswer = ''b'',
          explanation = ''e'', subTopic = ''t''\<rparr>,
        \<lparr>question = ''q4'', options = [''a'', ''b''], correctAnswer = ''a'',
          explanation = ''e'', subTopic = ''t''\<rparr>,
        \<lparr>question = ''q5'', options = [''a'', ''b''], correctAnswer = ''b'',
          explanation = ''e'', subTopic = ''t''\<rparr>]
      [Some ''a'', Some ''a'', Some ''b'', None, Some ''b'']) = 3
   \<and> score (fst (calculateResult ''u'' [Some ''a'', Some ''a'', Some ''b'', None, Some ''b''] [] \<lparr>ap_flow = QActive, ap_selectedDifficulty = Medium, ap_numQuestions = 5,
       ap_savedQuizState = None,
       ap_questions = [\<lparr>question = ''q1'', options = [''a'', ''b''], correctAnswer = ''a'',
          explanation = ''e'', subTopic = ''t''\<rparr>,
        \<lparr>question = ''q2'', options = [''a'', ''b''], correctAnswer = ''b'',
          explanation = ''e'', subTopic = ''t''\<rparr>,
        \<lparr>question = ''q3'', options = [''a'', ''b''], correctAnswer = ''b'',
          explanation = ''e'', subTopic = ''t''\<rparr>,
        \<lparr>question = ''q4'', options = [''a'', ''b''], correctAnswer = ''a'',
          explanation = ''e'', subTopic = ''t''\<rparr>,
        \<lparr>question = ''q5'', options = [''a'', ''b''], correctAnswer = ''b'',
          explanation = ''e'', subTopic = ''t''\<rparr>],
       ap_currentQuestionIndex = 4,
       ap_userAnswers = [Some ''a'', Some ''a'', Some ''b'', None, Some ''b''],
       ap_timeLeft = Some 100, ap_timePerQuestion = [Some 10, Some 20, Some 30, Some 5, None],
       ap_questionStartTime = 5000, ap_quizTopic = ''Logical Reasoning'',
       ap_quizType = Practice, ap_result = None, ap_isQuizActive = True\<rparr>)) = Some 60
   \<and> correctAnswers (fst (calculateResult ''u'' [Some ''a'', Some ''a'', Some ''b'', None, Some ''b''] [] \<lparr>ap_flow = QActive, ap_selectedDifficulty = Medium, ap_numQuestions = 5,
       ap_savedQuizState = None,
       ap_questions = [\<lparr>question = ''q1'', options = [''a'', ''b''], correctAnswer = ''a'',
          explanation = ''e'', subTopic = ''t''\<rparr>,
        \<lparr>question = ''q2'', options = [''a'', ''b''], correctAnswer = ''b'',
          explanation = ''e'', subTopic = ''t''\<rparr>,
        \<lparr>question = ''q3'', options = [''a'', ''b''], correctAnswer = ''b'',
          explanation = ''e'', subTopic = ''t''\<rparr>,
        \<lparr>question = ''q4'', options = [''a'', ''b''], correctAnswer = ''a'',
          explanation = ''e'', subTopic = ''t''\<rparr>,
        \<lparr>question = ''q5'', options = [''a'', ''b''], correctAnswer = ''b'',
          explanation = ''e'', subTopic = ''t''\<rparr>],
       ap_currentQuestionIndex = 4,
       ap_userAnswers = [Some ''a'', Some ''a'', Some ''b'', None, Some ''b''],
       ap_timeLeft = Some 100, ap_timePerQuestion = [Some 10, Some 20, Some 30, Some 5, None],
       ap_questionStartTime = 5000, ap_quizTopic = ''Logical Reasoning'',
       ap_quizType = Practice, ap_result = None, ap_isQuizActive = True\<rparr>)) = 3
   \<and> incorrectAnswers (fst (calculateResult ''u'' [Some ''a'', Some ''a'', Some ''b'', None, Some ''b''] [] \<lparr>ap_flow = QActive, ap_selectedDifficulty = Medium, ap_numQuestions = 5,
       ap_savedQuizState = None,
       ap_questions = [\<lparr>question = ''q1'', options = [''a'', ''b''], correctAnswer = ''a'',
          explanation = ''e'', subTopic = ''t''\<rparr>,
        \<lparr>question = ''q2'', options = [''a'', ''b''], correctAnswer = ''b'',
          explanation = ''e'', subTopic = ''t''\<rparr>,
        \<lparr>question = ''q3'', options = [''a'', ''b''], correctAnswer = ''b'',
          explanation = ''e'', subTopic = ''t''\<rparr>,
        \<lparr>question = ''q4'', options = [''a'', ''b''], correctAnswer = ''a'',
          explanation = ''e'', subTopic = ''t''\<rparr>,
        \<lparr>question = ''q5'', options = [''a'', ''b''], correctAnswer = ''b'',
          explanation = ''e'', subTopic = ''t''\<rparr>],
       ap_currentQuestionIndex = 4,
       ap_userAnswers = [Some ''a'', Some ''a'', Some ''b'', None, Some ''b''],
       ap_timeLeft = Some 100, ap_timePerQuestion = [Some 10, Some 20, Some 30, Some 5, None],
       ap_questionStartTime = 5000, ap_quizTopic = ''Logical Reasoning'',
       ap_quizType = Practice, ap_result = None, ap_isQuizActive = True\<rparr>)) = 2"
proof -
  let ?s = "\<lparr>ap_flow = QActive, ap_selectedDifficulty = Medium, ap_numQuestions = 5,
       ap_savedQuizState = None,
       ap_questions = [\<lparr>question = ''q1'', options = [''a'', ''b''], correctAnswer = ''a'',
          explanation = ''e'', subTopic = ''t''\<rparr>,
        \<lparr>question = ''q2'', options = [''a'', ''b''], correctAnswer = ''b'',
          explanation = ''e'', subTopic = ''t''\<rparr>,
        \<lparr>question = ''q3'', options = [''a'', ''b''], correctAnswer = ''b'',
          explanation = ''e'', subTopic = ''t''\<rparr>,
        \<lparr>question = ''q4'', options = [''a'', ''b''], correctAnswer = ''a'',
          explanation = ''e'', subTopic = ''t''\<rparr>,
        \<lparr>question = ''q5'', options = [''a'', ''b''], correctAnswer = ''b'',
          explanation = ''e'', subTopic = ''t''\<rparr>],
       ap_currentQuestionIndex = 4,
       ap_userAnswers = [Some ''a'', Some ''a'', Some ''b'', None, Some ''b''],
       ap_timeLeft = Some 100, ap_timePerQuestion = [Some 10, Some 20, Some 30, Some 5, None],
       ap_questionStartTime = 5000, ap_quizTopic = ''Logical Reasoning'',
       ap_quizType = Practice, ap_result = None, ap_isQuizActive = True\<rparr>"
  have c: "correctAnswers (fst (calculateResult ''u'' [Some ''a'', Some ''a'', Some ''b'', None, Some ''b''] [] ?s)) = 3"
    by (simp add: calculateResult_def Let_def js_get_def)
  have sc: "js_mul (js_div (Some 3) 5) (Some 100) = Some 60"
    by (rule js_score_examples [THEN conjunct1])
  show ?thesis
    using c sc calculateResult_score [where s = ?s and uid = "''u''"
        and finalAnswers = "[Some ''a'', Some ''a'', Some ''b'', None, Some ''b'']" and finalTimes = "[]"]
    by simp
qed




section \<open>Theorems: mock interview\<close>




lemma reachable_clicks:
  assumes "reachable s" and "mi_flow s = MActive" and "mi_currentRoundIndex s = 0"
    and "mi_currentQuestionIndex s + k \<le> 29"
  shows "reachable (s\<lparr>mi_currentQuestionIndex := mi_currentQuestionIndex s + k\<rparr>)"
  using assms(4)
proof (induction k)
  case 0
  then show ?case using assms(1) by simp
next
  case (Suc k)
  let ?s = "s\<lparr>mi_currentQuestionIndex := mi_currentQuestionIndex s + k\<rparr>"
  from Suc have r: "reachable ?s" by simp
  have "reachable (fst (proceedToNext FeedbackThrows None None False ?s))"
    by (rule r_next [OF r]) (simp add: assms(2))
  moreover have "fst (proceedToNext FeedbackThrows None None False ?s)
      = s\<lparr>mi_currentQuestionIndex := mi_currentQuestionIndex s + Suc k\<rparr>"
    using Suc.prems assms(3) by (simp add: proceedToNext_def INTERVIEW_STRUCTURE_def)
  ultimately show ?case by simp
qed

lemma reachable_ticks:
  assumes "reachable s" and "mi_flow s = MActive" and "int k \<le> mi_timeLeft s"
  shows "reachable (s\<lparr>mi_timeLeft := mi_timeLeft s - int k\<rparr>)"
  using assms(3)
proof (induction k)
  case 0
  then show ?case using assms(1) by simp
next
  case (Suc k)
  let ?s = "s\<lparr>mi_timeLeft := mi_timeLeft s - int k\<rparr>"
  from Suc have r: "reachable ?s" by simp
  have "reachable (tick ?s)"
    by (rule r_tick [OF r]) (use Suc.prems assms(2) in simp_all)
  moreover have "tick ?s = s\<lparr>mi_timeLeft := mi_timeLeft s - int (Suc k)\<rparr>"
    by (simp add: tick_def algebra_simps)
  ultimately show ?case by simp
qed

text \<open>
  The start of the Technical round is reached by a run of the component: start with 30
  aptitude questions, the background fetch delivers both question sets, the aptitude
  round is clicked through and scored.
\<close>

lemma technical_round_reachable:
  "reachable
     \<lparr>mi_flow = MActive, mi_targetRole = ''Full-Stack Developer'',
      mi_targetCompanyTier = ''High-Growth Startup'', mi_duration = 60, mi_timeLeft = 3600,
      mi_currentRoundIndex = 1, mi_roundResults = [AptitudeResult (Some 0) 30 0],
      mi_aptitudeQuestions = replicate 30 \<lparr>question = ''q'', options = [''a'', ''b''],
        correctAnswer = ''a'', explanation = ''e'', subTopic = ''t''\<rparr>,
      mi_aptitudeAnswers = replicate 30 None, mi_currentQuestionIndex = 0,
      mi_technicalQuestions = [''t1'', ''t2'', ''t3'', ''t4'', ''t5'', ''t6''],
      mi_technicalAnswers = [Some [], Some [], Some [], Some [], Some [], Some []],
      mi_hrQuestions = [''h1'', ''h2'', ''h3'', ''h4'', ''h5'', ''h6''],
      mi_hrAnswers = [Some [], Some [], Some [], Some [], Some [], Some []],
      mi_isLoading = False, mi_loadingMessage = ''Preparing next round...'', mi_error = None,
      mi_finalResults = [], mi_overallFeedback = [], mi_backgroundFetch = Resolved\<rparr>"
proof -
  let ?qs = "replicate 30 \<lparr>question = ''q'', options = [''a'', ''b''],
        correctAnswer = ''a'', explanation = ''e'', subTopic = ''t''\<rparr>"
  let ?s1 = "startInterview (Some ?qs) mi_initial"
  let ?s2 = "background_resolved [''t1'', ''t2'', ''t3'', ''t4'', ''t5'', ''t6'']
               [''h1'', ''h2'', ''h3'', ''h4'', ''h5'', ''h6''] ?s1"
  let ?s3 = "?s2\<lparr>mi_currentQuestionIndex := mi_currentQuestionIndex ?s2 + 29\<rparr>"
  let ?s4 = "fst (proceedToNext FeedbackThrows None None False ?s3)"
  have r1: "reachable ?s1"
    by (rule r_start [OF r_init]) (simp add: mi_initial_def)
  have r2: "reachable ?s2"
    by (rule r_fetched [OF r1]) (simp add: startInterview_def)
  have r3: "reachable ?s3"
    by (rule reachable_clicks [OF r2])
      (simp_all add: background_resolved_def startInterview_def)
  have r4: "reachable ?s4"
    by (rule r_next [OF r3]) (simp add: background_resolved_def startInterview_def)
  have c: "count_correct 0 ?qs (replicate 30 None) 0 = 0"
    by code_simp
  have z: "js_mul (js_div (Some 0) 30) (Some 100) = Some 0"
    by (rule js_score_zero) simp
  have "?s4 = \<lparr>mi_flow = MActive, mi_targetRole = ''Full-Stack Developer'',
      mi_targetCompanyTier = ''High-Growth Startup'', mi_duration = 60, mi_timeLeft = 3600,
      mi_currentRoundIndex = 1, mi_roundResults = [AptitudeResult (Some 0) 30 0],
      mi_aptitudeQuestions = replicate 30 \<lparr>question = ''q'', options = [''a'', ''b''],
        correctAnswer = ''a'', explanation = ''e'', subTopic = ''t''\<rparr>,
      mi_aptitudeAnswers = replicate 30 None, mi_currentQuestionIndex = 0,
      mi_technicalQuestions = [''t1'', ''t2'', ''t3'', ''t4'', ''t5'', ''t6''],
      mi_technicalAnswers = [Some [], Some [], Some [], Some [], Some [], Some []],
      mi_hrQuestions = [''h1'', ''h2'', ''h3'', ''h4'', ''h5'', ''h6''],
      mi_hrAnswers = [Some [], Some [], Some [], Some [], Some [], Some []],
      mi_isLoading = False, mi_loadingMessage = ''Preparing next round...'', mi_error = None,
      mi_finalResults = [], mi_overallFeedback = [], mi_backgroundFetch = Resolved\<rparr>"
    by (simp add: proceedToNext_def INTERVIEW_STRUCTURE_def Let_def score_round_def c z
        await_background_def background_resolved_def startInterview_def
        mi_initial_def)
  with r4 show ?thesis by simp
qed






text \<open>
  The aptitude round of the mock interview is scored like a quiz: the entry holds the
  number of indices at which the answer is the question's correct answer, the number
  of questions, and their ratio times 100 in double arithmetic.
\<close>

lemma score_round_aptitude:
  assumes "mi_aptitudeQuestions s \<noteq> []"
  shows "score_round s Aptitude fb =
     Some [AptitudeResult
             (js_mul (js_div
                (Some (of_nat (card (matching_indices (mi_aptitudeQuestions s)
                                       (mi_aptitudeAnswers s)))))
                (of_nat (length (mi_aptitudeQuestions s)))) (Some 100))
             (length (mi_aptitudeQuestions s))
             (card (matching_indices (mi_aptitudeQuestions s) (mi_aptitudeAnswers s)))]"
  using assms
  by (simp add: score_round_def Let_def matching_indices_def
      count_correct_card [of 0, simplified])

text \<open>
  The error path of \<open>proceedToNext\<close>.  Let the current question be the last one
  of its round, so that \<open>proceedToNext\<close> scores the round.  If scoring the round or
  fetching its feedback raises an error, or the wait for the next round's questions
  does, then the round index and the question index are unchanged, the flow is
  unchanged, nothing is submitted for a report, and the message "Failed to process
  the ... round or load the next one. Please try again." is stored in \<open>error\<close>.
\<close>

lemma proceedToNext_error_keeps_round:
  assumes "mi_currentRoundIndex s < length INTERVIEW_STRUCTURE"
    and "mi_currentQuestionIndex s
           = ROUND_QUESTION_COUNT (INTERVIEW_STRUCTURE ! mi_currentRoundIndex s) - 1"
    and "score_round s (INTERVIEW_STRUCTURE ! mi_currentRoundIndex s) fb = None
         \<or> (mi_currentRoundIndex s < 2
              \<and> (mi_backgroundFetch s = Rejected
                   \<or> (mi_backgroundFetch s = Pending \<and> bg = None)))"
  shows "mi_currentRoundIndex (fst (proceedToNext fb bg fin saved s)) = mi_currentRoundIndex s
     \<and> mi_currentQuestionIndex (fst (proceedToNext fb bg fin saved s))
           = mi_currentQuestionIndex s
     \<and> mi_flow (fst (proceedToNext fb bg fin saved s)) = mi_flow s
     \<and> mi_isLoading (fst (proceedToNext fb bg fin saved s)) = False
     \<and> mi_error (fst (proceedToNext fb bg fin saved s))
           = Some (round_error (INTERVIEW_STRUCTURE ! mi_currentRoundIndex s))
     \<and> snd (proceedToNext fb bg fin saved s) = None"
proof (cases "score_round s (INTERVIEW_STRUCTURE ! mi_currentRoundIndex s) fb")
  case None
  with assms(1,2) show ?thesis
    by (simp add: proceedToNext_def Let_def)
next
  case (Some rs)
  with assms(3) have b: "mi_currentRoundIndex s < 2"
    and p: "mi_backgroundFetch s = Rejected \<or> (mi_backgroundFetch s = Pending \<and> bg = None)"
    by simp_all
  from assms(1,2) Some b p show ?thesis
    by (auto simp: proceedToNext_def Let_def INTERVIEW_STRUCTURE_def await_background_def)
qed

text \<open>
  The stored message is not on the screen.  \<open>proceedToNext\<close> runs from the active
  screen, the flow stays \<open>active\<close>, and the active screen does not render
  \<open>error\<close>: after the failure the user sees the same question again, with no
  message.  The failure of \<open>startInterview\<close> stores its message in the same cell,
  in flow \<open>setup\<close>, where it is rendered.
\<close>

lemma proceedToNext_error_not_rendered:
  assumes "mi_flow s = MActive"
    and "mi_currentRoundIndex s < length INTERVIEW_STRUCTURE"
    and "mi_currentQuestionIndex s
           = ROUND_QUESTION_COUNT (INTERVIEW_STRUCTURE ! mi_currentRoundIndex s) - 1"
    and "score_round s (INTERVIEW_STRUCTURE ! mi_currentRoundIndex s) fb = None
         \<or> (mi_currentRoundIndex s < 2
              \<and> (mi_backgroundFetch s = Rejected
                   \<or> (mi_backgroundFetch s = Pending \<and> bg = None)))"
  shows "rendered_error (fst (proceedToNext fb bg fin saved s)) = None"
  using proceedToNext_error_keeps_round [OF assms(2,3,4), where fin = fin and saved = saved]
    assms(1)
  by (simp add: rendered_error_def)

lemma startInterview_error_rendered:
  assumes "mi_flow s = MSetup"
  shows "rendered_error (startInterview None s)
     = Some ''Failed to set up the interview. Please check your API key and try again.''"
  using assms by (simp add: rendered_error_def startInterview_def)

text \<open>
  The state of the next theorem is reached by a run of the component: in the Technical
  round the six questions are answered one after the other.
\<close>

lemma reachable_answer_next:
  assumes "reachable s" and "mi_flow s = MActive" and "mi_currentRoundIndex s = 1"
    and "mi_currentQuestionIndex s < 5" and "j = mi_currentQuestionIndex s + 1"
  shows "reachable (s\<lparr>mi_technicalAnswers :=
                        js_set (mi_technicalAnswers s) (mi_currentQuestionIndex s) a,
                      mi_currentQuestionIndex := j\<rparr>)"
proof -
  let ?s = "s\<lparr>mi_technicalAnswers :=
               js_set (mi_technicalAnswers s) (mi_currentQuestionIndex s) a\<rparr>"
  have r: "reachable ?s"
    by (rule r_answer_technical [OF assms(1,2)])
  have "reachable (fst (proceedToNext FeedbackThrows None None False ?s))"
    by (rule r_next [OF r]) (simp add: assms(2))
  moreover have "fst (proceedToNext FeedbackThrows None None False ?s)
      = ?s\<lparr>mi_currentQuestionIndex := j\<rparr>"
    using assms(3,4,5) by (simp add: proceedToNext_def INTERVIEW_STRUCTURE_def)
  ultimately show ?thesis by simp
qed

lemma feedback_failure_state_reachable:
  "reachable
     \<lparr>mi_flow = MActive, mi_targetRole = ''Full-Stack Developer'',
      mi_targetCompanyTier = ''High-Growth Startup'', mi_duration = 60, mi_timeLeft = 1200,
      mi_currentRoundIndex = 1, mi_roundResults = [AptitudeResult (Some 0) 30 0],
      mi_aptitudeQuestions = replicate 30 \<lparr>question = ''q'', options = [''a'', ''b''],
        correctAnswer = ''a'', explanation = ''e'', subTopic = ''t''\<rparr>,
      mi_aptitudeAnswers = replicate 30 None, mi_currentQuestionIndex = 5,
      mi_technicalQuestions = [''t1'', ''t2'', ''t3'', ''t4'', ''t5'', ''t6''],
      mi_technicalAnswers = [Some ''a1'', Some ''a2'', Some ''a3'', Some ''a4'', Some ''a5'',
        Some ''a6''],
      mi_hrQuestions = [''h1'', ''h2'', ''h3'', ''h4'', ''h5'', ''h6''],
      mi_hrAnswers = [Some [], Some [], Some [], Some [], Some [], Some []],
      mi_isLoading = False, mi_loadingMessage = ''Preparing next round...'', mi_error = None,
      mi_finalResults = [], mi_overallFeedback = [], mi_backgroundFetch = Resolved\<rparr>"
proof -
  let ?start = "\<lparr>mi_flow = MActive, mi_targetRole = ''Full-Stack Developer'',
      mi_targetCompanyTier = ''High-Growth Startup'', mi_duration = 60, mi_timeLeft = 3600,
      mi_currentRoundIndex = 1, mi_roundResults = [AptitudeResult (Some 0) 30 0],
      mi_aptitudeQuestions = replicate 30 \<lparr>question = ''q'', options = [''a'', ''b''],
        correctAnswer = ''a'', explanation = ''e'', subTopic = ''t''\<rparr>,
      mi_aptitudeAnswers = replicate 30 None, mi_currentQuestionIndex = 0,
      mi_technicalQuestions = [''t1'', ''t2'', ''t3'', ''t4'', ''t5'', ''t6''],
      mi_technicalAnswers = [Some [], Some [], Some [], Some [], Some [],
        Some []],
      mi_hrQuestions = [''h1'', ''h2'', ''h3'', ''h4'', ''h5'', ''h6''],
      mi_hrAnswers = [Some [], Some [], Some [], Some [], Some [], Some []],
      mi_isLoading = False, mi_loadingMessage = ''Preparing next round...'', mi_error = None,
      mi_finalResults = [], mi_overallFeedback = [], mi_backgroundFetch = Resolved\<rparr>"
  let ?s0 = "\<lparr>mi_flow = MActive, mi_targetRole = ''Full-Stack Developer'',
      mi_targetCompanyTier = ''High-Growth Startup'', mi_duration = 60, mi_timeLeft = 1200,
      mi_currentRoundIndex = 1, mi_roundResults = [AptitudeResult (Some 0) 30 0],
      mi_aptitudeQuestions = replicate 30 \<lparr>question = ''q'', options = [''a'', ''b''],
        correctAnswer = ''a'', explanation = ''e'', subTopic = ''t''\<rparr>,
      mi_aptitudeAnswers = replicate 30 None, mi_currentQuestionIndex = 0,
      mi_technicalQuestions = [''t1'', ''t2'', ''t3'', ''t4'', ''t5'', ''t6''],
      mi_technicalAnswers = [Some [], Some [], Some [], Some [], Some [],
        Some []],
      mi_hrQuestions = [''h1'', ''h2'', ''h3'', ''h4'', ''h5'', ''h6''],
      mi_hrAnswers = [Some [], Some [], Some [], Some [], Some [], Some []],
      mi_isLoading = False, mi_loadingMessage = ''Preparing next round...'', mi_error = None,
      mi_finalResults = [], mi_overallFeedback = [], mi_backgroundFetch = Resolved\<rparr>"
  let ?s1 = "\<lparr>mi_flow = MActive, mi_targetRole = ''Full-Stack Developer'',
      mi_targetCompanyTier = ''High-Growth Startup'', mi_duration = 60, mi_timeLeft = 1200,
      mi_currentRoundIndex = 1, mi_roundResults = [AptitudeResult (Some 0) 30 0],
      mi_aptitudeQuestions = replicate 30 \<lparr>question = ''q'', options = [''a'', ''b''],
        correctAnswer = ''a'', explanation = ''e'', subTopic = ''t''\<rparr>,
      mi_aptitudeAnswers = replicate 30 None, mi_currentQuestionIndex = 1,
      mi_technicalQuestions = [''t1'', ''t2'', ''t3'', ''t4'', ''t5'', ''t6''],
      mi_technicalAnswers = [Some ''a1'', Some [], Some [], Some [], Some [],
        Some []],
      mi_hrQuestions = [''h1'', ''h2'', ''h3'', ''h4'', ''h5'', ''h6''],
      mi_hrAnswers = [Some [], Some [], Some [], Some [], Some [], Some []],
      mi_isLoading = False, mi_loadingMessage = ''Preparing next round...'', mi_error = None,
      mi_finalResults = [], mi_overallFeedback = [], mi_backgroundFetch = Resolved\<rparr>"
  let ?s2 = "\<lparr>mi_flow = MActive, mi_targetRole = ''Full-Stack Developer'',
      mi_targetCompanyTier = ''High-Growth Startup'', mi_duration = 60, mi_timeLeft = 1200,
      mi_currentRoundIndex = 1, mi_roundResults = [AptitudeResult (Some 0) 30 0],
      mi_aptitudeQuestions = replicate 30 \<lparr>question = ''q'', options = [''a'', ''b''],
        correctAnswer = ''a'', explanation = ''e'', subTopic = ''t''\<rparr>,
      mi_aptitudeAnswers = replicate 30 None, mi_currentQuestionIndex = 2,
      mi_technicalQuestions = [''t1'', ''t2'', ''t3'', ''t4'', ''t5'', ''t6''],
      mi_technicalAnswers = [Some ''a1'', Some ''a2'', Some [], Some [], Some [],
        Some []],
      mi_hrQuestions = [''h1'', ''h2'', ''h3'', ''h4'', ''h5'', ''h6''],
      mi_hrAnswers = [Some [], Some [], Some [], Some [], Some [], Some []],
      mi_isLoading = False, mi_loadingMessage = ''Preparing next round...'', mi_error = None,
      mi_finalResults = [], mi_overallFeedback = [], mi_backgroundFetch = Resolved\<rparr>"
  let ?s3 = "\<lparr>mi_flow = MActive, mi_targetRole = ''Full-Stack Developer'',
      mi_targetCompanyTier = ''High-Growth Startup'', mi_duration = 60, mi_timeLeft = 1200,
      mi_currentRoundIndex = 1, mi_roundResults = [AptitudeResult (Some 0) 30 0],
      mi_aptitudeQuestions = replicate 30 \<lparr>question = ''q'', options = [''a'', ''b''],
        correctAnswer = ''a'', explanation = ''e'', subTopic = ''t''\<rparr>,
      mi_aptitudeAnswers = replicate 30 None, mi_currentQuestionIndex = 3,
      mi_technicalQuestions = [''t1'', ''t2'', ''t3'', ''t4'', ''t5'', ''t6''],
      mi_technicalAnswers = [Some ''a1'', Some ''a2'', Some ''a3'', Some [], Some [],
        Some []],
      mi_hrQuestions = [''h1'', ''h2'', ''h3'', ''h4'', ''h5'', ''h6''],
      mi_hrAnswers = [Some [], Some [], Some [], Some [], Some [], Some []],
      mi_isLoading = False, mi_loadingMessage = ''Preparing next round...'', mi_error = None,
      mi_finalResults = [], mi_overallFeedback = [], mi_backgroundFetch = Resolved\<rparr>"
  let ?s4 = "\<lparr>mi_flow = MActive, mi_targetRole = ''Full-Stack Developer'',
      mi_targetCompanyTier = ''High-Growth Startup'', mi_duration = 60, mi_timeLeft = 1200,
      mi_currentRoundIndex = 1, mi_roundResults = [AptitudeResult (Some 0) 30 0],
      mi_aptitudeQuestions = replicate 30 \<lparr>question = ''q'', options = [''a'', ''b''],
        correctAnswer = ''a'', explanation = ''e'', subTopic = ''t''\<rparr>,
      mi_aptitudeAnswers = replicate 30 None, mi_currentQuestionIndex = 4,
      mi_technicalQuestions = [''t1'', ''t2'', ''t3'', ''t4'', ''t5'', ''t6''],
      mi_technicalAnswers = [Some ''a1'', Some ''a2'', Some ''a3'', Some ''a4'', Some [],
        Some []],
      mi_hrQuestions = [''h1'', ''h2'', ''h3'', ''h4'', ''h5'', ''h6''],
      mi_hrAnswers = [Some [], Some [], Some [], Some [], Some [], Some []],
      mi_isLoading = False, mi_loadingMessage = ''Preparing next round...'', mi_error = None,
      mi_finalResults = [], mi_overallFeedback = [], mi_backgroundFetch = Resolved\<rparr>"
  let ?s5 = "\<lparr>mi_flow = MActive, mi_targetRole = ''Full-Stack Developer'',
      mi_targetCompanyTier = ''High-Growth Startup'', mi_duration = 60, mi_timeLeft = 1200,
      mi_currentRoundIndex = 1, mi_roundResults = [AptitudeResult (Some 0) 30 0],
      mi_aptitudeQuestions = replicate 30 \<lparr>question = ''q'', options = [''a'', ''b''],
        correctAnswer = ''a'', explanation = ''e'', subTopic = ''t''\<rparr>,
      mi_aptitudeAnswers = replicate 30 None, mi_currentQuestionIndex = 5,
      mi_technicalQuestions = [''t1'', ''t2'', ''t3'', ''t4'', ''t5'', ''t6''],
      mi_technicalAnswers = [Some ''a1'', Some ''a2'', Some ''a3'', Some ''a4'', Some ''a5'',
        Some []],
      mi_hrQuestions = [''h1'', ''h2'', ''h3'', ''h4'', ''h5'', ''h6''],
      mi_hrAnswers = [Some [], Some [], Some [], Some [], Some [], Some []],
      mi_isLoading = False, mi_loadingMessage = ''Preparing next round...'', mi_error = None,
      mi_finalResults = [], mi_overallFeedback = [], mi_backgroundFetch = Resolved\<rparr>"
  have "reachable (?start\<lparr>mi_timeLeft := mi_timeLeft ?start - int 2400\<rparr>)"
    by (rule reachable_ticks [OF technical_round_reachable]) simp_all
  then have r0: "reachable ?s0" by simp
  have "reachable (?s0\<lparr>mi_technicalAnswers :=
                        js_set (mi_technicalAnswers ?s0) (mi_currentQuestionIndex ?s0) ''a1'',
                      mi_currentQuestionIndex := 1\<rparr>)"
    by (rule reachable_answer_next [OF r0]) simp_all
  then have r1: "reachable ?s1" by (simp add: js_set_def)
  have "reachable (?s1\<lparr>mi_technicalAnswers :=
                        js_set (mi_technicalAnswers ?s1) (mi_currentQuestionIndex ?s1) ''a2'',
                      mi_currentQuestionIndex := 2\<rparr>)"
    by (rule reachable_answer_next [OF r1]) simp_all
  then have r2: "reachable ?s2" by (simp add: js_set_def)
  have "reachable (?s2\<lparr>mi_technicalAnswers :=
                        js_set (mi_technicalAnswers ?s2) (mi_currentQuestionIndex ?s2) ''a3'',
                      mi_currentQuestionIndex := 3\<rparr>)"
    by (rule reachable_answer_next [OF r2]) simp_all
  then have r3: "reachable ?s3" by (simp add: js_set_def)
  have "reachable (?s3\<lparr>mi_technicalAnswers :=
                        js_set (mi_technicalAnswers ?s3) (mi_currentQuestionIndex ?s3) ''a4'',
                      mi_currentQuestionIndex := 4\<rparr>)"
    by (rule reachable_answer_next [OF r3]) simp_all
  then have r4: "reachable ?s4" by (simp add: js_set_def)
  have "reachable (?s4\<lparr>mi_technicalAnswers :=
                        js_set (mi_technicalAnswers ?s4) (mi_currentQuestionIndex ?s4) ''a5'',
                      mi_currentQuestionIndex := 5\<rparr>)"
    by (rule reachable_answer_next [OF r4]) simp_all
  then have r5: "reachable ?s5" by (simp add: js_set_def)
  have "reachable (?s5\<lparr>mi_technicalAnswers :=
                        js_set (mi_technicalAnswers ?s5) (mi_currentQuestionIndex ?s5) ''a6''\<rparr>)"
    by (rule r_answer_technical [OF r5]) simp
  then show ?thesis by (simp add: js_set_def)
qed

text \<open>
  C9.  The claim: if scoring a round or fetching its feedback raises an error, the
  round transition is aborted with a user-visible error message and the round index
  is unchanged.  The code keeps the round index but shows no message.  At the sixth
  and last technical question, with all six answered, the call for the batch feedback
  throws: the round index stays 1, the question index stays 5, the flow stays
  \<open>active\<close>, nothing is submitted, the message is stored in \<open>error\<close>, and the
  screen shows no error text.
\<close>

theorem proceedToNext_error_not_shown:
  "mi_currentRoundIndex (fst (proceedToNext FeedbackThrows None None False
     \<lparr>mi_flow = MActive, mi_targetRole = ''Full-Stack Developer'',
      mi_targetCompanyTier = ''High-Growth Startup'', mi_duration = 60, mi_timeLeft = 1200,
      mi_currentRoundIndex = 1, mi_roundResults = [AptitudeResult (Some 0) 30 0],
      mi_aptitudeQuestions = replicate 30 \<lparr>question = ''q'', options = [''a'', ''b''],
        correctAnswer = ''a'', explanation = ''e'', subTopic = ''t''\<rparr>,
      mi_aptitudeAnswers = replicate 30 None, mi_currentQuestionIndex = 5,
      mi_technicalQuestions = [''t1'', ''t2'', ''t3'', ''t4'', ''t5'', ''t6''],
      mi_technicalAnswers = [Some ''a1'', Some ''a2'', Some ''a3'', Some ''a4'', Some ''a5'',
        Some ''a6''],
      mi_hrQuestions = [''h1'', ''h2'', ''h3'', ''h4'', ''h5'', ''h6''],
      mi_hrAnswers = [Some [], Some [], Some [], Some [], Some [], Some []],
      mi_isLoading = False, mi_loadingMessage = ''Preparing next round...'', mi_error = None,
      mi_finalResults = [], mi_overallFeedback = [], mi_backgroundFetch = Resolved\<rparr>)) = 1
   \<and> mi_currentQuestionIndex (fst (proceedToNext FeedbackThrows None None False
     \<lparr>mi_flow = MActive, mi_targetRole = ''Full-Stack Developer'',
      mi_targetCompanyTier = ''High-Growth Startup'', mi_duration = 60, mi_timeLeft = 1200,
      mi_currentRoundIndex = 1, mi_roundResults = [AptitudeResult (Some 0) 30 0],
      mi_aptitudeQuestions = replicate 30 \<lparr>question = ''q'', options = [''a'', ''b''],
        correctAnswer = ''a'', explanation = ''e'', subTopic = ''t''\<rparr>,
      mi_aptitudeAnswers = replicate 30 None, mi_currentQuestionIndex = 5,
      mi_technicalQuestions = [''t1'', ''t2'', ''t3'', ''t4'', ''t5'', ''t6''],
      mi_technicalAnswers = [Some ''a1'', Some ''a2'', Some ''a3'', Some ''a4'', Some ''a5'',
        Some ''a6''],
      mi_hrQuestions = [''h1'', ''h2'', ''h3'', ''h4'', ''h5'', ''h6''],
      mi_hrAnswers = [Some [], Some [], Some [], Some [], Some [], Some []],
      mi_isLoading = False, mi_loadingMessage = ''Preparing next round...'', mi_error = None,
      mi_finalResults = [], mi_overallFeedback = [], mi_backgroundFetch = Resolved\<rparr>)) = 5
   \<and> mi_flow (fst (proceedToNext FeedbackThrows None None False
     \<lparr>mi_flow = MActive, mi_targetRole = ''Full-Stack Developer'',
      mi_targetCompanyTier = ''High-Growth Startup'', mi_duration = 60, mi_timeLeft = 1200,
      mi_currentRoundIndex = 1, mi_roundResults = [AptitudeResult (Some 0) 30 0],
      mi_aptitudeQuestions = replicate 30 \<lparr>question = ''q'', options = [''a'', ''b''],
        correctAnswer = ''a'', explanation = ''e'', subTopic = ''t''\<rparr>,
      mi_aptitudeAnswers = replicate 30 None, mi_currentQuestionIndex = 5,
      mi_technicalQuestions = [''t1'', ''t2'', ''t3'', ''t4'', ''t5'', ''t6''],
      mi_technicalAnswers = [Some ''a1'', Some ''a2'', Some ''a3'', Some ''a4'', Some ''a5'',
        Some ''a6''],
      mi_hrQuestions = [''h1'', ''h2'', ''h3'', ''h4'', ''h5'', ''h6''],
      mi_hrAnswers = [Some [], Some [], Some [], Some [], Some [], Some []],
      mi_isLoading = False, mi_loadingMessage = ''Preparing next round...'', mi_error = None,
      mi_finalResults = [], mi_overallFeedback = [], mi_backgroundFetch = Resolved\<rparr>)) = MActive
   \<and> snd (proceedToNext FeedbackThrows None None False
     \<lparr>mi_flow = MActive, mi_targetRole = ''Full-Stack Developer'',
      mi_targetCompanyTier = ''High-Growth Startup'', mi_duration = 60, mi_timeLeft = 1200,
      mi_currentRoundIndex = 1, mi_roundResults = [AptitudeResult (Some 0) 30 0],
      mi_aptitudeQuestions = replicate 30 \<lparr>question = ''q'', options = [''a'', ''b''],
        correctAnswer = ''a'', explanation = ''e'', subTopic = ''t''\<rparr>,
      mi_aptitudeAnswers = replicate 30 None, mi_currentQuestionIndex = 5,
      mi_technicalQuestions = [''t1'', ''t2'', ''t3'', ''t4'', ''t5'', ''t6''],
      mi_technicalAnswers = [Some ''a1'', Some ''a2'', Some ''a3'', Some ''a4'', Some ''a5'',
        Some ''a6''],
      mi_hrQuestions = [''h1'', ''h2'', ''h3'', ''h4'', ''h5'', ''h6''],
      mi_hrAnswers = [Some [], Some [], Some [], Some [], Some [], Some []],
      mi_isLoading = False, mi_loadingMessage = ''Preparing next round...'', mi_error = None,
      mi_finalResults = [], mi_overallFeedback = [], mi_backgroundFetch = Resolved\<rparr>) = None
   \<and> mi_error (fst (proceedToNext FeedbackThrows None None False
     \<lparr>mi_flow = MActive, mi_targetRole = ''Full-Stack Developer'',
      mi_targetCompanyTier = ''High-Growth Startup'', mi_duration = 60, mi_timeLeft = 1200,
      mi_currentRoundIndex = 1, mi_roundResults = [AptitudeResult (Some 0) 30 0],
      mi_aptitudeQuestions = replicate 30 \<lparr>question = ''q'', options = [''a'', ''b''],
        correctAnswer = ''a'', explanation = ''e'', subTopic = ''t''\<rparr>,
      mi_aptitudeAnswers = replicate 30 None, mi_currentQuestionIndex = 5,
      mi_technicalQuestions = [''t1'', ''t2'', ''t3'', ''t4'', ''t5'', ''t6''],
      mi_technicalAnswers = [Some ''a1'', Some ''a2'', Some ''a3'', Some ''a4'', Some ''a5'',
        Some ''a6''],
      mi_hrQuestions = [''h1'', ''h2'', ''h3'', ''h4'', ''h5'', ''h6''],
      mi_hrAnswers = [Some [], Some [], Some [], Some [], Some [], Some []],
      mi_isLoading = False, mi_loadingMessage = ''Preparing next round...'', mi_error = None,
      mi_finalResults = [], mi_overallFeedback = [], mi_backgroundFetch = Resolved\<rparr>))
     = Some ''Failed to process the Technical round or load the next one. Please try again.''
   \<and> rendered_error (fst (proceedToNext FeedbackThrows None None False
     \<lparr>mi_flow = MActive, mi_targetRole = ''Full-Stack Developer'',
      mi_targetCompanyTier = ''High-Growth Startup'', mi_duration = 60, mi_timeLeft = 1200,
      mi_currentRoundIndex = 1, mi_roundResults = [AptitudeResult (Some 0) 30 0],
      mi_aptitudeQuestions = replicate 30 \<lparr>question = ''q'', options = [''a'', ''b''],
        correctAnswer = ''a'', explanation = ''e'', subTopic = ''t''\<rparr>,
      mi_aptitudeAnswers = replicate 30 None, mi_currentQuestionIndex = 5,
      mi_technicalQuestions = [''t1'', ''t2'', ''t3'', ''t4'', ''t5'', ''t6''],
      mi_technicalAnswers = [Some ''a1'', Some ''a2'', Some ''a3'', Some ''a4'', Some ''a5'',
        Some ''a6''],
      mi_hrQuestions = [''h1'', ''h2'', ''h3'', ''h4'', ''h5'', ''h6''],
      mi_hrAnswers = [Some [], Some [], Some [], Some [], Some [], Some []],
      mi_isLoading = False, mi_loadingMessage = ''Preparing next round...'', mi_error = None,
      mi_finalResults = [], mi_overallFeedback = [], mi_backgroundFetch = Resolved\<rparr>)) = None"
  by (simp add: proceedToNext_def INTERVIEW_STRUCTURE_def Let_def score_round_def
      feedback_results_def round_error_def round_name_def rendered_error_def)


section \<open>Theorems: parsing the answers of the generative service\<close>

lemma one_by_one_all:
  "one_by_one (\<lambda>i. Inr (q i)) i n questions = Inr (JArr (questions @ map q [i..<i + n]))"
proof (induction n arbitrary: i questions)
  case 0
  then show ?case by simp
next
  case (Suc n)
  have "[i..<i + Suc n] = i # [Suc i..<Suc i + n]"
    by (simp add: upt_rec)
  then show ?case using Suc.IH [of "Suc i" "questions @ [q i]"] by simp
qed

text \<open>
  C8, as stated, fails for two of the parsing operations: on a JSON-parse failure
  \<open>generateAptitudeQuestions\<close> and \<open>parseUserGoal\<close> return no default; they
  throw a new \<open>Error\<close> to the caller.
\<close>

theorem parse_failure_counterexample:
  "generateAptitudeQuestions None
     = Inl ''Failed to generate aptitude questions. The AI response was not valid JSON.''
   \<and> parseUserGoal None
     = Inl ''Failed to parse user goal. The AI response was not valid JSON.''"
  by (simp add: generateAptitudeQuestions_def parseUserGoal_def)

text \<open>
  C8, amended.  Every parsing operation of the service catches a JSON-parse failure.
  Ten of them return a fixed default in its place: the topic Quantitative Aptitude,
  placeholder feedback and follow-up question, one placeholder feedback per question
  of the conversation, a placeholder report, three stock discussion topics, one stock
  discussion turn.  \<open>generateMultipleTechnicalQuestions\<close> and
  \<open>generateMultipleHrQuestions\<close> fall back to generating the \<open>count\<close> questions
  one call at a time, and return those when the calls succeed.
  \<open>generateAptitudeQuestions\<close> and \<open>parseUserGoal\<close> throw a new error with a
  descriptive message.
\<close>

theorem parse_failure_handling:
  "extractTopicFromGoal None = Inr (JStr ''Quantitative Aptitude'')
   \<and> getTechnicalFeedbackAndFollowUp None
       = Inr (JObj
          [(''feedback'',
            JStr (''I'm sorry, I had a little trouble processing that. ''
                  @ ''Let's try another angle.'')),
           (''followUpQuestion'',
            JStr (''Let's switch gears. What's a recent technical challenge you faced ''
                  @ ''and how did you overcome it?''))])
   \<and> getTechnicalInterviewFeedback conversation None
       = Inr (JArr (replicate (length conversation)
                (JStr ''Sorry, I was unable to generate feedback for this answer.'')))
   \<and> getHrInterviewFeedback conversation None
       = Inr (JArr (replicate (length conversation)
                (JStr ''Sorry, I was unable to generate feedback for this answer.'')))
   \<and> getTechnicalSessionFeedback None = Inr report_default
   \<and> getHrFinalReport None = Inr report_default
   \<and> generateGdTopics None = Inr gd_topics_default
   \<and> orchestrateGdTurn ai1Name None
       = Inr (JArr [JObj [(''participant'', JStr ai1Name),
                          (''message'',
                           JStr (''I'm sorry, I seem to have lost my train of thought. ''
                                 @ ''Could you repeat your last point?''))]])
   \<and> reviewProfile None
       = Inr (JObj
          [(''rating'', JStr ''N/A''), (''summary'', JStr ''Error generating feedback.''),
           (''keyRecommendations'', JArr []),
           (''feedback'', JStr ''Could not generate a report.'')])
   \<and> getMockInterviewOverallFeedback None
       = Inr (JObj
          [(''recommendation'', JStr ''N/A''), (''summary'', JStr ''Error generating feedback.''),
           (''report'', JStr ''Could not generate a report.'')])
   \<and> generateMultipleTechnicalQuestions cnt (\<lambda>i. Inr (q i)) None
       = Inr (JArr (map q [0..<cnt]))
   \<and> generateMultipleHrQuestions cnt (\<lambda>i. Inr (q i)) None
       = Inr (JArr (map q [0..<cnt]))
   \<and> generateAptitudeQuestions None
       = Inl ''Failed to generate aptitude questions. The AI response was not valid JSON.''
   \<and> parseUserGoal None
       = Inl ''Failed to parse user goal. The AI response was not valid JSON.''"
  by (simp add: extractTopicFromGoal_def QUANTITATIVE_def getTechnicalFeedbackAndFollowUp_def
      getTechnicalInterviewFeedback_def getHrInterviewFeedback_def unable_feedbacks_def
      getTechnicalSessionFeedback_def getHrFinalReport_def generateGdTopics_def
      orchestrateGdTurn_def reviewProfile_def getMockInterviewOverallFeedback_def
      generateMultipleTechnicalQuestions_def generateMultipleHrQuestions_def
      generateAptitudeQuestions_def parseUserGoal_def one_by_one_all [of _ 0, simplified]
      map_replicate_const)


section \<open>Theorems: saving a history record\<close>

text \<open>
  The one-way ratchet of the badge documents: the batch only sets documents, so a badge
  document that is stored as earned is still stored as earned after any save, whatever
  the badge check returns.
\<close>

lemma commit_badges_keeps:
  assumes "store b = Some d" and "earned d"
  shows "\<exists>d'. commit_badges srv ids store b = Some d' \<and> earned d'"
  using assms unfolding commit_badges_def
proof (induction ids arbitrary: store d)
  case Nil
  then show ?case by simp
next
  case (Cons i ids)
  let ?st = "case find (\<lambda>b. badge_id b = i) allBadges of
               Some badgeDef \<Rightarrow> store(i \<mapsto> badge_def.extend badgeDef (badge.fields True (Some srv)))
             | None \<Rightarrow> store"
  have "\<exists>d1. ?st b = Some d1 \<and> earned d1"
    using Cons.prems by (auto simp: badge_def.extend_def badge.fields_def split: option.splits)
  then obtain d1 where d1: "?st b = Some d1" "earned d1" by blast
  show ?case using Cons.IH [of ?st d1] d1 by simp
qed

text \<open>
  The profile documents after a history-record save are those of the streak update.
\<close>

lemma save_users:
  "st_users (saveInterviewHistory tz srv0 now srv uid h db)
     = snd (updateUserStreak tz now srv uid (st_users db))"
  by (simp add: saveInterviewHistory_def updateUserStreakAndBadges_def Let_def split: prod.splits)

lemma save_keeps_badges:
  assumes "st_badges db uid b = Some d" and "earned d"
  shows "\<exists>d'. st_badges (saveInterviewHistory tz srv0 now srv uid h db) uid b = Some d' \<and> earned d'"
  using commit_badges_keeps [of "st_badges db uid" b d, OF assms]
  by (simp add: saveInterviewHistory_def updateUserStreakAndBadges_def Let_def split: prod.splits)

end
